theory Spec2Isabelle
  imports Main
begin

section \<open>The environment: local disk, BMC, primitive operations\<close>

text \<open>
  The provider talks to three things it does not implement itself: the local file
  system (package \<open>os\<close>, \<open>io\<close>), the HTTP client, and the BMC reached through the
  \<open>tpi\<close> client library (list-directory, upload, execute, flash, power, USB).
  Each call of one of these primitives is a value of \<open>prim\<close>. A world records the
  state the primitives act on, an oracle \<open>fault\<close> saying which primitive calls fail
  for reasons outside the modelled state (permissions, transport, disk full), and the
  \<open>trace\<close> of every primitive call made so far, in order.
\<close>

datatype prim =
    UserHomeDir
  | MkdirAll string
  | MkdirTemp
  | Stat string
  | Open string
  | Create string
  | CopyFile string string
  | Remove string
  | HttpNewRequest string
  | HttpDo string
  | WriteBody string
  | WriteDecoded string
  | HashFile string
  | ListDirectory string
  | ExecuteCommand string
  | UploadFile string string
  | FlashNode int string string bool
  | FlashNodeLocal int string
  | PowerStatus
  | PowerOn int
  | PowerOff int
  | UsbGetStatus
  | UsbSetHost int bool
  | UsbSetDevice int bool
  | UsbSetFlash int bool

text \<open>
  Errors are values. \<open>ErrNotExist\<close> is the error \<open>os.IsNotExist\<close> recognises;
  \<open>IOErr\<close> is any other failure of a primitive; \<open>Wrapped\<close> is
  \<open>fmt.Errorf("<prefix>: %w", err)\<close>; the remaining constructors are the errors the
  provider creates itself. \<open>Panic\<close> is a Go run-time panic (a slice out of range).
\<close>

datatype error =
    ErrNotExist string
  | IOErr string
  | Wrapped string error
  | UnknownCacheLocation string
  | StatusErr int
  | SHAMismatch string string
  | UnsupportedCompression string
  | ZipEmpty
  | UnknownUsbMode string
  | Panic string

fun IsNotExist :: "error \<Rightarrow> bool" where
  "IsNotExist (ErrNotExist p) = True"
| "IsNotExist e = False"

record FileInfo =
  Name :: string
  Size :: nat

record Response =
  StatusCode :: int
  ContentType :: string
  Body :: string

record UsbStatusInfo =
  UsbNode :: int
  Mode :: string
  Route :: string

record world =
  lfiles :: "string \<Rightarrow> string option"
  rdirs :: "string list"
  rfiles :: "(string \<times> string) list"
  fault :: "prim \<Rightarrow> string option"
  home :: string
  tmp_name :: "nat \<Rightarrow> string"
  tmp_seq :: nat
  http :: "string \<Rightarrow> Response"
  power :: "int \<Rightarrow> bool option"
  usb :: UsbStatusInfo
  trace :: "prim list"

text \<open>Every primitive call is appended to the trace and asks the oracle whether it fails.\<close>

definition call :: "world \<Rightarrow> prim \<Rightarrow> world \<times> string option" where
  "call w p = (w\<lparr>trace := trace w @ [p]\<rparr>, fault w p)"

subsection \<open>Local file system\<close>

definition os_UserHomeDir :: "world \<Rightarrow> world \<times> (error + string)" where
  "os_UserHomeDir w =
     (case call w UserHomeDir of
        (w1, Some e) \<Rightarrow> (w1, Inl (IOErr e))
      | (w1, None) \<Rightarrow> (w1, Inr (home w1)))"

definition os_MkdirAll :: "world \<Rightarrow> string \<Rightarrow> world \<times> error option" where
  "os_MkdirAll w d =
     (case call w (MkdirAll d) of
        (w1, Some e) \<Rightarrow> (w1, Some (IOErr e))
      | (w1, None) \<Rightarrow> (w1, None))"

definition os_MkdirTemp :: "world \<Rightarrow> world \<times> (error + string)" where
  "os_MkdirTemp w =
     (case call w MkdirTemp of
        (w1, Some e) \<Rightarrow> (w1, Inl (IOErr e))
      | (w1, None) \<Rightarrow> (w1\<lparr>tmp_seq := Suc (tmp_seq w1)\<rparr>, Inr (tmp_name w1 (tmp_seq w1))))"

definition os_Stat :: "world \<Rightarrow> string \<Rightarrow> world \<times> error option" where
  "os_Stat w p =
     (case call w (Stat p) of
        (w1, Some e) \<Rightarrow> (w1, Some (IOErr e))
      | (w1, None) \<Rightarrow>
          (case lfiles w1 p of
             None \<Rightarrow> (w1, Some (ErrNotExist p))
           | Some c \<Rightarrow> (w1, None)))"

definition os_Open :: "world \<Rightarrow> string \<Rightarrow> world \<times> error option" where
  "os_Open w p =
     (case call w (Open p) of
        (w1, Some e) \<Rightarrow> (w1, Some (IOErr e))
      | (w1, None) \<Rightarrow>
          (case lfiles w1 p of
             None \<Rightarrow> (w1, Some (ErrNotExist p))
           | Some c \<Rightarrow> (w1, None)))"

text \<open>\<open>os.Create\<close> creates the file or truncates it.\<close>

definition os_Create :: "world \<Rightarrow> string \<Rightarrow> world \<times> error option" where
  "os_Create w p =
     (case call w (Create p) of
        (w1, Some e) \<Rightarrow> (w1, Some (IOErr e))
      | (w1, None) \<Rightarrow> (w1\<lparr>lfiles := (lfiles w1)(p \<mapsto> [])\<rparr>, None))"

definition file_content :: "world \<Rightarrow> string \<Rightarrow> string" where
  "file_content w p = (case lfiles w p of None \<Rightarrow> [] | Some c \<Rightarrow> c)"

text \<open>\<open>io.Copy(dst, src)\<close> between two open local files.\<close>

definition io_Copy :: "world \<Rightarrow> string \<Rightarrow> string \<Rightarrow> world \<times> error option" where
  "io_Copy w src dst =
     (case call w (CopyFile src dst) of
        (w1, Some e) \<Rightarrow> (w1, Some (IOErr e))
      | (w1, None) \<Rightarrow> (w1\<lparr>lfiles := (lfiles w1)(dst \<mapsto> file_content w1 src)\<rparr>, None))"

text \<open>Every caller of \<open>os.Remove\<close> in the provider ignores its error.\<close>

definition os_Remove :: "world \<Rightarrow> string \<Rightarrow> world" where
  "os_Remove w p =
     (case call w (Remove p) of
        (w1, Some e) \<Rightarrow> w1
      | (w1, None) \<Rightarrow> w1\<lparr>lfiles := (lfiles w1)(p := None)\<rparr>)"

subsection \<open>The BMC, through the client wrapper\<close>

definition dir_prefix :: "string \<Rightarrow> string" where
  "dir_prefix d = d @ ''/''"

definition in_dir :: "string \<Rightarrow> string \<Rightarrow> bool" where
  "in_dir d p \<longleftrightarrow>
     take (length (dir_prefix d)) p = dir_prefix d
     \<and> CHR ''/'' \<notin> set (drop (length (dir_prefix d)) p)"

definition listing :: "string \<Rightarrow> (string \<times> string) list \<Rightarrow> FileInfo list" where
  "listing d fs =
     map (\<lambda>(p, c). \<lparr>Name = drop (length (dir_prefix d)) p, Size = length c\<rparr>)
         (filter (\<lambda>(p, c). in_dir d p) fs)"

definition Client_ListDirectory :: "world \<Rightarrow> string \<Rightarrow> world \<times> (error + FileInfo list)" where
  "Client_ListDirectory w d =
     (case call w (ListDirectory d) of
        (w1, Some e) \<Rightarrow> (w1, Inl (IOErr e))
      | (w1, None) \<Rightarrow>
          (if d \<in> set (rdirs w1) then (w1, Inr (listing d (rfiles w1)))
           else (w1, Inl (ErrNotExist d))))"

text \<open>
  The provider sends exactly two shell commands, \<open>mkdir -p <dir>\<close> and
  \<open>rm -rf <dir>\<close>; any other command leaves the modelled BMC state alone.
\<close>

definition under :: "string \<Rightarrow> string \<Rightarrow> bool" where
  "under d p \<longleftrightarrow> p = d \<or> take (length (dir_prefix d)) p = dir_prefix d"

definition run_command :: "string \<Rightarrow> world \<Rightarrow> world" where
  "run_command cmd w =
     (if take 9 cmd = ''mkdir -p '' then
        (if drop 9 cmd \<in> set (rdirs w) then w
         else w\<lparr>rdirs := drop 9 cmd # rdirs w\<rparr>)
      else if take 7 cmd = ''rm -rf '' then
        w\<lparr>rdirs := filter (\<lambda>d. \<not> under (drop 7 cmd) d) (rdirs w),
          rfiles := filter (\<lambda>(p, c). \<not> under (drop 7 cmd) p) (rfiles w)\<rparr>
      else w)"

definition Client_ExecuteCommand :: "world \<Rightarrow> string \<Rightarrow> world \<times> (error + string)" where
  "Client_ExecuteCommand w cmd =
     (case call w (ExecuteCommand cmd) of
        (w1, Some e) \<Rightarrow> (w1, Inl (IOErr e))
      | (w1, None) \<Rightarrow> (run_command cmd w1, Inr []))"

definition dirname :: "string \<Rightarrow> string" where
  "dirname p = rev (tl (dropWhile (\<lambda>c. c \<noteq> CHR ''/'') (rev p)))"

definition store :: "string \<Rightarrow> string \<Rightarrow> (string \<times> string) list \<Rightarrow> (string \<times> string) list" where
  "store p c fs = (p, c) # filter (\<lambda>(q, c'). q \<noteq> p) fs"

definition Client_UploadFile :: "world \<Rightarrow> string \<Rightarrow> string \<Rightarrow> world \<times> error option" where
  "Client_UploadFile w localPath remotePath =
     (case call w (UploadFile localPath remotePath) of
        (w1, Some e) \<Rightarrow> (w1, Some (IOErr e))
      | (w1, None) \<Rightarrow>
          (case lfiles w1 localPath of
             None \<Rightarrow> (w1, Some (ErrNotExist localPath))
           | Some c \<Rightarrow>
               (if dirname remotePath \<in> set (rdirs w1)
                then (w1\<lparr>rfiles := store remotePath c (rfiles w1)\<rparr>, None)
                else (w1, Some (ErrNotExist (dirname remotePath))))))"

definition Client_FlashNode :: "world \<Rightarrow> int \<Rightarrow> string \<Rightarrow> string \<Rightarrow> bool \<Rightarrow> world \<times> error option" where
  "Client_FlashNode w node imagePath sha skipCRC =
     (case call w (FlashNode node imagePath sha skipCRC) of
        (w1, Some e) \<Rightarrow> (w1, Some (IOErr e))
      | (w1, None) \<Rightarrow> (w1, None))"

definition Client_FlashNodeLocal :: "world \<Rightarrow> int \<Rightarrow> string \<Rightarrow> world \<times> error option" where
  "Client_FlashNodeLocal w node imagePath =
     (case call w (FlashNodeLocal node imagePath) of
        (w1, Some e) \<Rightarrow> (w1, Some (IOErr e))
      | (w1, None) \<Rightarrow> (w1, None))"

section \<open>cache.go\<close>

text \<open>
  The Go standard library functions the provider calls on strings and bytes are
  parameters: path joining and base names, lower-casing, decimal printing, SHA-256 in
  hex, and the three decompressors. A decompressor maps the bytes of the compressed file
  to \<open>BadHeader e\<close> (the reader cannot be created, or the archive entry cannot be
  opened), \<open>BadStream out e\<close> (the stream breaks with error \<open>e\<close> after \<open>out\<close> was
  written) or \<open>Decoded out\<close>.
\<close>

datatype decoded =
    BadHeader string
  | BadStream string string
  | Decoded string

datatype zip_archive =
    ZipBad string
  | ZipFiles "decoded list"

record golib =
  Join :: "string list \<Rightarrow> string"
  Base :: "string \<Rightarrow> string"
  ToLower :: "string \<Rightarrow> string"
  Itoa :: "int \<Rightarrow> string"
  sha256_hex :: "string \<Rightarrow> string"
  xz_NewReader :: "string \<Rightarrow> decoded"
  gzip_NewReader :: "string \<Rightarrow> decoded"
  zip_OpenReader :: "string \<Rightarrow> zip_archive"

definition CacheLocationLocal :: string where
  "CacheLocationLocal = ''local''"

definition CacheLocationBMC :: string where
  "CacheLocationBMC = ''bmc''"

definition CacheLocationNone :: string where
  "CacheLocationNone = ''none''"

definition bmcCacheDir :: string where
  "bmcCacheDir = ''/tmp/tpi-cache''"

text \<open>The \<open>client\<close> field of \<open>ImageCache\<close> is the BMC of the world.\<close>

record ImageCache =
  localDir :: string

definition NewImageCache :: "golib \<Rightarrow> world \<Rightarrow> world \<times> (error + ImageCache)" where
  "NewImageCache L w =
     (case os_UserHomeDir w of
        (w1, Inl e) \<Rightarrow> (w1, Inl (Wrapped ''failed to get home directory'' e))
      | (w1, Inr homeDir) \<Rightarrow>
          (let d = Join L [homeDir, ''.cache'', ''terraform-provider-turingpi''] in
           case os_MkdirAll w1 d of
             (w2, Some e) \<Rightarrow> (w2, Inl (Wrapped ''failed to create cache directory'' e))
           | (w2, None) \<Rightarrow> (w2, Inr \<lparr>localDir = d\<rparr>)))"

definition getLocalCachePath :: "golib \<Rightarrow> ImageCache \<Rightarrow> world \<Rightarrow> string \<Rightarrow> world \<times> (error + string)" where
  "getLocalCachePath L c w sha =
     (let path = Join L [localDir c, sha @ ''.img''] in
      case os_Stat w path of
        (w1, None) \<Rightarrow> (w1, Inr path)
      | (w1, Some err) \<Rightarrow>
          (if IsNotExist err then (w1, Inr []) else (w1, Inl err)))"

text \<open>The loop \<open>for _, f := range files\<close> of \<open>getBMCCachePath\<close>.\<close>

fun has_name :: "FileInfo list \<Rightarrow> string \<Rightarrow> bool" where
  "has_name [] expectedName = False"
| "has_name (f # fs) expectedName =
     (if Name f = expectedName then True else has_name fs expectedName)"

definition getBMCCachePath :: "world \<Rightarrow> string \<Rightarrow> world \<times> (error + string)" where
  "getBMCCachePath w sha =
     (let remotePath = bmcCacheDir @ ''/'' @ sha @ ''.img'' in
      case Client_ListDirectory w bmcCacheDir of
        (w1, Inl err) \<Rightarrow> (w1, Inr [])
      | (w1, Inr files) \<Rightarrow>
          (if has_name files (sha @ ''.img'') then (w1, Inr remotePath)
           else (w1, Inr [])))"

definition cacheLocally :: "golib \<Rightarrow> ImageCache \<Rightarrow> world \<Rightarrow> string \<Rightarrow> string \<Rightarrow> world \<times> (error + string)" where
  "cacheLocally L c w srcPath sha =
     (let destPath = Join L [localDir c, sha @ ''.img''] in
      case os_Stat w destPath of
        (w1, None) \<Rightarrow> (w1, Inr destPath)
      | (w1, Some err) \<Rightarrow>
          (case os_Open w1 srcPath of
             (w2, Some e) \<Rightarrow> (w2, Inl (Wrapped ''failed to open source file'' e))
           | (w2, None) \<Rightarrow>
               (case os_Create w2 destPath of
                  (w3, Some e) \<Rightarrow> (w3, Inl (Wrapped ''failed to create cache file'' e))
                | (w3, None) \<Rightarrow>
                    (case io_Copy w3 srcPath destPath of
                       (w4, Some e) \<Rightarrow>
                         (os_Remove w4 destPath, Inl (Wrapped ''failed to copy to cache'' e))
                     | (w4, None) \<Rightarrow> (w4, Inr destPath)))))"

definition cacheToBMC :: "world \<Rightarrow> string \<Rightarrow> string \<Rightarrow> world \<times> (error + string)" where
  "cacheToBMC w localPath sha =
     (let remotePath = bmcCacheDir @ ''/'' @ sha @ ''.img'' in
      case Client_ExecuteCommand w (''mkdir -p '' @ bmcCacheDir) of
        (w1, Inl e) \<Rightarrow> (w1, Inl (Wrapped ''failed to create BMC cache directory'' e))
      | (w1, Inr out) \<Rightarrow>
          (case getBMCCachePath w1 sha of
             (w2, Inl e) \<Rightarrow> (w2, Inl e)
           | (w2, Inr existingPath) \<Rightarrow>
               (if existingPath \<noteq> [] then (w2, Inr existingPath)
                else
                  (case Client_UploadFile w2 localPath remotePath of
                     (w3, Some e) \<Rightarrow> (w3, Inl (Wrapped ''failed to upload to BMC'' e))
                   | (w3, None) \<Rightarrow> (w3, Inr remotePath)))))"

definition GetCachedImagePath :: "golib \<Rightarrow> ImageCache \<Rightarrow> world \<Rightarrow> string \<Rightarrow> string \<Rightarrow> world \<times> (error + string)" where
  "GetCachedImagePath L c w sha location =
     (if location = CacheLocationLocal then getLocalCachePath L c w sha
      else if location = CacheLocationBMC then getBMCCachePath w sha
      else if location = CacheLocationNone then (w, Inr [])
      else (w, Inl (UnknownCacheLocation location)))"

definition CacheImage :: "golib \<Rightarrow> ImageCache \<Rightarrow> world \<Rightarrow> string \<Rightarrow> string \<Rightarrow> string \<Rightarrow> world \<times> (error + string)" where
  "CacheImage L c w localPath sha location =
     (if location = CacheLocationLocal then cacheLocally L c w localPath sha
      else if location = CacheLocationBMC then cacheToBMC w localPath sha
      else if location = CacheLocationNone then (w, Inr localPath)
      else (w, Inl (UnknownCacheLocation location)))"


section \<open>download.go\<close>

record DownloadResult =
  Path :: string
  SHA256 :: string

record DownloadOptions =
  ExpectedSHA256 :: string
  DestDir :: string

definition HasSuffix :: "string \<Rightarrow> string \<Rightarrow> bool" where
  "HasSuffix s suffix \<longleftrightarrow>
     length suffix \<le> length s \<and> drop (length s - length suffix) s = suffix"

definition TrimSuffix :: "string \<Rightarrow> string \<Rightarrow> string" where
  "TrimSuffix s suffix =
     (if HasSuffix s suffix then take (length s - length suffix) s else s)"

fun Contains :: "string \<Rightarrow> string \<Rightarrow> bool" where
  "Contains [] substr = (substr = [])"
| "Contains (c # cs) substr =
     (take (length substr) (c # cs) = substr \<or> Contains cs substr)"

definition detectCompression :: "golib \<Rightarrow> string \<Rightarrow> string \<Rightarrow> string" where
  "detectCompression L url contentType =
     (let url = ToLower L url in
      if HasSuffix url ''.xz'' then ''xz''
      else if HasSuffix url ''.gz'' \<or> HasSuffix url ''.gzip'' then ''gz''
      else if HasSuffix url ''.zip'' then ''zip''
      else
        (let contentType = ToLower L contentType in
         if Contains contentType ''xz'' \<or> Contains contentType ''x-xz'' then ''xz''
         else if Contains contentType ''gzip'' then ''gz''
         else if Contains contentType ''zip'' then ''zip''
         else []))"

text \<open>
  \<open>io.Copy(dstFile, reader)\<close> from a decompressing reader into the created file
  \<open>dst\<close>; \<open>msg\<close> is the prefix the caller wraps a failure in.
\<close>

definition write_decoded :: "world \<Rightarrow> decoded \<Rightarrow> string \<Rightarrow> string \<Rightarrow> world \<times> (error + string)" where
  "write_decoded w r dst msg =
     (case call w (WriteDecoded dst) of
        (w1, Some e) \<Rightarrow> (w1, Inl (Wrapped msg (IOErr e)))
      | (w1, None) \<Rightarrow>
          (case r of
             BadHeader e \<Rightarrow> (w1, Inl (Wrapped msg (IOErr e)))
           | BadStream out e \<Rightarrow>
               (w1\<lparr>lfiles := (lfiles w1)(dst \<mapsto> out)\<rparr>, Inl (Wrapped msg (IOErr e)))
           | Decoded out \<Rightarrow> (w1\<lparr>lfiles := (lfiles w1)(dst \<mapsto> out)\<rparr>, Inr dst)))"

definition decompressXZ :: "golib \<Rightarrow> world \<Rightarrow> string \<Rightarrow> string \<Rightarrow> world \<times> (error + string)" where
  "decompressXZ L w src dst =
     (case os_Open w src of
        (w1, Some e) \<Rightarrow> (w1, Inl e)
      | (w1, None) \<Rightarrow>
          (case xz_NewReader L (file_content w1 src) of
             BadHeader e \<Rightarrow> (w1, Inl (Wrapped ''failed to create xz reader'' (IOErr e)))
           | reader \<Rightarrow>
               (case os_Create w1 dst of
                  (w2, Some e) \<Rightarrow> (w2, Inl e)
                | (w2, None) \<Rightarrow> write_decoded w2 reader dst ''failed to decompress xz'')))"

definition decompressGzip :: "golib \<Rightarrow> world \<Rightarrow> string \<Rightarrow> string \<Rightarrow> world \<times> (error + string)" where
  "decompressGzip L w src dst =
     (case os_Open w src of
        (w1, Some e) \<Rightarrow> (w1, Inl e)
      | (w1, None) \<Rightarrow>
          (case gzip_NewReader L (file_content w1 src) of
             BadHeader e \<Rightarrow> (w1, Inl (Wrapped ''failed to create gzip reader'' (IOErr e)))
           | reader \<Rightarrow>
               (case os_Create w1 dst of
                  (w2, Some e) \<Rightarrow> (w2, Inl e)
                | (w2, None) \<Rightarrow> write_decoded w2 reader dst ''failed to decompress gzip'')))"

definition decompressZip :: "golib \<Rightarrow> world \<Rightarrow> string \<Rightarrow> string \<Rightarrow> world \<times> (error + string)" where
  "decompressZip L w src dst =
     (case os_Open w src of
        (w1, Some e) \<Rightarrow> (w1, Inl (Wrapped ''failed to open zip'' e))
      | (w1, None) \<Rightarrow>
          (case zip_OpenReader L (file_content w1 src) of
             ZipBad e \<Rightarrow> (w1, Inl (Wrapped ''failed to open zip'' (IOErr e)))
           | ZipFiles [] \<Rightarrow> (w1, Inl ZipEmpty)
           | ZipFiles (BadHeader e # rest) \<Rightarrow>
               (w1, Inl (Wrapped ''failed to open file in zip'' (IOErr e)))
           | ZipFiles (file # rest) \<Rightarrow>
               (case os_Create w1 dst of
                  (w2, Some e) \<Rightarrow> (w2, Inl e)
                | (w2, None) \<Rightarrow> write_decoded w2 file dst ''failed to extract from zip'')))"

text \<open>The first three lines of \<open>decompress\<close>: where the decompressed file goes.\<close>

definition outputPath :: "string \<Rightarrow> string \<Rightarrow> string" where
  "outputPath path compression =
     (let outputPath = TrimSuffix path (''.'' @ compression) in
      if outputPath = path then path @ ''.decompressed'' else outputPath)"

definition decompress :: "golib \<Rightarrow> world \<Rightarrow> string \<Rightarrow> string \<Rightarrow> world \<times> (error + string)" where
  "decompress L w path compression =
     (if compression = ''xz'' then decompressXZ L w path (outputPath path compression)
      else if compression = ''gz'' then decompressGzip L w path (outputPath path compression)
      else if compression = ''zip'' then decompressZip L w path (outputPath path compression)
      else (w, Inl (UnsupportedCompression compression)))"

definition calculateSHA256 :: "golib \<Rightarrow> world \<Rightarrow> string \<Rightarrow> world \<times> (error + string)" where
  "calculateSHA256 L w path =
     (case os_Open w path of
        (w1, Some e) \<Rightarrow> (w1, Inl e)
      | (w1, None) \<Rightarrow>
          (case call w1 (HashFile path) of
             (w2, Some e) \<Rightarrow> (w2, Inl (IOErr e))
           | (w2, None) \<Rightarrow> (w2, Inr (sha256_hex L (file_content w2 path)))))"

definition CalculateFileSHA256 :: "golib \<Rightarrow> world \<Rightarrow> string \<Rightarrow> world \<times> (error + string)" where
  "CalculateFileSHA256 L w path = calculateSHA256 L w path"

definition http_NewRequest :: "world \<Rightarrow> string \<Rightarrow> world \<times> error option" where
  "http_NewRequest w url =
     (case call w (HttpNewRequest url) of
        (w1, Some e) \<Rightarrow> (w1, Some (IOErr e))
      | (w1, None) \<Rightarrow> (w1, None))"

definition http_Do :: "world \<Rightarrow> string \<Rightarrow> world \<times> (error + Response)" where
  "http_Do w url =
     (case call w (HttpDo url) of
        (w1, Some e) \<Rightarrow> (w1, Inl (IOErr e))
      | (w1, None) \<Rightarrow> (w1, Inr (http w1 url)))"

text \<open>\<open>io.Copy(downloadFile, resp.Body)\<close>.\<close>

definition write_body :: "world \<Rightarrow> string \<Rightarrow> string \<Rightarrow> world \<times> error option" where
  "write_body w p body =
     (case call w (WriteBody p) of
        (w1, Some e) \<Rightarrow> (w1, Some (IOErr e))
      | (w1, None) \<Rightarrow> (w1\<lparr>lfiles := (lfiles w1)(p \<mapsto> body)\<rparr>, None))"

definition StatusOK :: int where
  "StatusOK = 200"

text \<open>
  \<open>DownloadImage\<close>, in the steps the source takes one after the other: the
  destination directory (lines 41 to 49), decompression of the saved download (lines
  84 to 93), hashing and verification (lines 95 to 110).
\<close>

definition destDirStep :: "world \<Rightarrow> DownloadOptions \<Rightarrow> world \<times> (error + string)" where
  "destDirStep w opts =
     (if DestDir opts = [] then
        (case os_MkdirTemp w of
           (w1, Inl e) \<Rightarrow> (w1, Inl (Wrapped ''failed to create temp directory'' e))
         | (w1, Inr d) \<Rightarrow> (w1, Inr d))
      else (w, Inr (DestDir opts)))"

definition decompressStep :: "golib \<Rightarrow> world \<Rightarrow> string \<Rightarrow> string \<Rightarrow> world \<times> (error + string)" where
  "decompressStep L w downloadPath compression =
     (if compression \<noteq> [] then
        (case decompress L w downloadPath compression of
           (w1, Inl e) \<Rightarrow> (w1, Inl (Wrapped ''failed to decompress'' e))
         | (w1, Inr finalPath) \<Rightarrow> (os_Remove w1 downloadPath, Inr finalPath))
      else (w, Inr downloadPath))"

definition verifyStep :: "golib \<Rightarrow> world \<Rightarrow> DownloadOptions \<Rightarrow> string \<Rightarrow> world \<times> (error + DownloadResult)" where
  "verifyStep L w opts finalPath =
     (case calculateSHA256 L w finalPath of
        (w1, Inl e) \<Rightarrow> (w1, Inl (Wrapped ''failed to calculate SHA256'' e))
      | (w1, Inr sha256Hash) \<Rightarrow>
          (if ExpectedSHA256 opts \<noteq> [] \<and> sha256Hash \<noteq> ExpectedSHA256 opts
           then (os_Remove w1 finalPath, Inl (SHAMismatch (ExpectedSHA256 opts) sha256Hash))
           else (w1, Inr \<lparr>Path = finalPath, SHA256 = sha256Hash\<rparr>)))"

definition finishDownload :: "golib \<Rightarrow> world \<Rightarrow> DownloadOptions \<Rightarrow> string \<Rightarrow> string \<Rightarrow> world \<times> (error + DownloadResult)" where
  "finishDownload L w opts downloadPath compression =
     (case decompressStep L w downloadPath compression of
        (w1, Inl e) \<Rightarrow> (w1, Inl e)
      | (w1, Inr finalPath) \<Rightarrow> verifyStep L w1 opts finalPath)"

text \<open>Lines 67 to 110: the response has status 200 and is saved under its base name.\<close>

definition saveDownload :: "golib \<Rightarrow> world \<Rightarrow> DownloadOptions \<Rightarrow> string \<Rightarrow> string \<Rightarrow> Response \<Rightarrow> world \<times> (error + DownloadResult)" where
  "saveDownload L w opts url destDir resp =
     (let filename = Base L url;
          compression = detectCompression L url (ContentType resp);
          downloadPath = Join L [destDir, filename] in
      case os_Create w downloadPath of
        (w1, Some e) \<Rightarrow> (w1, Inl (Wrapped ''failed to create download file'' e))
      | (w1, None) \<Rightarrow>
          (case write_body w1 downloadPath (Body resp) of
             (w2, Some e) \<Rightarrow> (w2, Inl (Wrapped ''failed to save download'' e))
           | (w2, None) \<Rightarrow> finishDownload L w2 opts downloadPath compression))"

definition DownloadImage :: "golib \<Rightarrow> world \<Rightarrow> string \<Rightarrow> DownloadOptions option \<Rightarrow> world \<times> (error + DownloadResult)" where
  "DownloadImage L w url opts0 =
     (let opts = (case opts0 of None \<Rightarrow> \<lparr>ExpectedSHA256 = [], DestDir = []\<rparr> | Some opts \<Rightarrow> opts) in
      case destDirStep w opts of
        (w1, Inl e) \<Rightarrow> (w1, Inl e)
      | (w1, Inr destDir) \<Rightarrow>
          (case http_NewRequest w1 url of
             (w2, Some e) \<Rightarrow> (w2, Inl (Wrapped ''failed to create request'' e))
           | (w2, None) \<Rightarrow>
               (case http_Do w2 url of
                  (w3, Inl e) \<Rightarrow> (w3, Inl (Wrapped ''failed to download'' e))
                | (w3, Inr resp) \<Rightarrow>
                    (if StatusCode resp \<noteq> StatusOK then (w3, Inl (StatusErr (StatusCode resp)))
                     else saveDownload L w3 opts url destDir resp))))"

section \<open>node\_flash/resource.go\<close>

text \<open>
  A \<open>types.String\<close> of the plan is \<open>None\<close> when null; \<open>ValueString\<close> of a null
  string is the empty string.
\<close>

definition IsNull :: "string option \<Rightarrow> bool" where
  "IsNull s \<longleftrightarrow> s = None"

definition ValueString :: "string option \<Rightarrow> string" where
  "ValueString s = (case s of None \<Rightarrow> [] | Some v \<Rightarrow> v)"

record NodeFlashResourceModel =
  fl_Node :: int
  fl_ImageURL :: "string option"
  fl_ImagePath :: "string option"
  fl_SHA256 :: "string option"
  fl_Cache :: "string option"
  fl_SkipCRC :: bool

record FlashResult =
  res_SHA256 :: string

text \<open>What the first half of \<open>executeFlash\<close> leaves in its three local variables.\<close>

record resolved =
  imagePath :: string
  sha256 :: string
  tempFile :: string

text \<open>
  Lines 311 to 393 of \<open>executeFlash\<close> resolve the image source to a path and a
  hash; they are split here into the steps the source takes one after the other. A
  failed cache lookup or cache store is only logged.
\<close>

definition sha_given :: "NodeFlashResourceModel \<Rightarrow> bool" where
  "sha_given plan \<longleftrightarrow> \<not> IsNull (fl_SHA256 plan) \<and> ValueString (fl_SHA256 plan) \<noteq> []"

definition expectedSHA256 :: "NodeFlashResourceModel \<Rightarrow> string" where
  "expectedSHA256 plan = (if sha_given plan then ValueString (fl_SHA256 plan) else [])"

text \<open>Lines 318 to 336: the value of \<open>imagePath\<close> after the cache was asked.\<close>

definition lookupCached :: "golib \<Rightarrow> ImageCache \<Rightarrow> world \<Rightarrow> NodeFlashResourceModel \<Rightarrow> world \<times> string" where
  "lookupCached L cache w plan =
     (if sha_given plan then
        (case GetCachedImagePath L cache w (expectedSHA256 plan) (ValueString (fl_Cache plan)) of
           (w1, Inl err) \<Rightarrow> (w1, [])
         | (w1, Inr cachedPath) \<Rightarrow> (w1, cachedPath))
      else (w, []))"

text \<open>Lines 339 to 363: download, then store in the cache when caching is enabled.\<close>

definition downloadAndCache :: "golib \<Rightarrow> ImageCache \<Rightarrow> world \<Rightarrow> NodeFlashResourceModel \<Rightarrow> world \<times> (error + resolved)" where
  "downloadAndCache L cache w plan =
     (let cacheLocation = ValueString (fl_Cache plan) in
      case DownloadImage L w (ValueString (fl_ImageURL plan))
             (Some \<lparr>ExpectedSHA256 = expectedSHA256 plan, DestDir = []\<rparr>) of
        (w1, Inl err) \<Rightarrow> (w1, Inl (Wrapped ''failed to download image'' err))
      | (w1, Inr result) \<Rightarrow>
          (let r = \<lparr>imagePath = Path result, sha256 = SHA256 result,
                    tempFile = Path result\<rparr> in
           if cacheLocation \<noteq> CacheLocationNone then
             (case CacheImage L cache w1 (Path result) (SHA256 result) cacheLocation of
                (w2, Inl err) \<Rightarrow> (w2, Inr r)
              | (w2, Inr cachedPath) \<Rightarrow> (w2, Inr r))
           else (w1, Inr r)))"

definition resolveURL :: "golib \<Rightarrow> ImageCache \<Rightarrow> world \<Rightarrow> NodeFlashResourceModel \<Rightarrow> world \<times> (error + resolved)" where
  "resolveURL L cache w plan =
     (case lookupCached L cache w plan of
        (w1, cachedPath) \<Rightarrow>
          (if cachedPath \<noteq> [] then
             (w1, Inr \<lparr>imagePath = cachedPath, sha256 = expectedSHA256 plan, tempFile = []\<rparr>)
           else downloadAndCache L cache w1 plan))"

text \<open>Lines 368 to 377: the hash of a local image is the given one, or computed.\<close>

definition localSHA256 :: "golib \<Rightarrow> world \<Rightarrow> NodeFlashResourceModel \<Rightarrow> world \<times> (error + string)" where
  "localSHA256 L w plan =
     (if sha_given plan then (w, Inr (ValueString (fl_SHA256 plan)))
      else
        (case CalculateFileSHA256 L w (ValueString (fl_ImagePath plan)) of
           (w1, Inl err) \<Rightarrow> (w1, Inl (Wrapped ''failed to calculate SHA256'' err))
         | (w1, Inr calculatedSHA256) \<Rightarrow> (w1, Inr calculatedSHA256)))"

definition resolveLocal :: "golib \<Rightarrow> ImageCache \<Rightarrow> world \<Rightarrow> NodeFlashResourceModel \<Rightarrow> world \<times> (error + resolved)" where
  "resolveLocal L cache w plan =
     (let cacheLocation = ValueString (fl_Cache plan);
          path = ValueString (fl_ImagePath plan) in
      case localSHA256 L w plan of
        (w1, Inl err) \<Rightarrow> (w1, Inl err)
      | (w1, Inr sha) \<Rightarrow>
          (if cacheLocation \<noteq> CacheLocationNone then
             (case CacheImage L cache w1 path sha cacheLocation of
                (w2, Inl err) \<Rightarrow> (w2, Inr \<lparr>imagePath = path, sha256 = sha, tempFile = []\<rparr>)
              | (w2, Inr cachedPath) \<Rightarrow>
                  (w2, Inr \<lparr>imagePath = cachedPath, sha256 = sha, tempFile = []\<rparr>))
           else (w1, Inr \<lparr>imagePath = path, sha256 = sha, tempFile = []\<rparr>)))"

text \<open>The deferred function of \<open>executeFlash\<close>; it runs when the function leaves.\<close>

definition cleanup :: "world \<Rightarrow> resolved \<Rightarrow> world" where
  "cleanup w r =
     (if tempFile r \<noteq> [] \<and> tempFile r \<noteq> imagePath r then os_Remove w (tempFile r) else w)"

text \<open>
  Lines 402 to 427: the log line slices \<open>sha256[:16]\<close>, which panics on a shorter
  string; then the flash is dispatched on the cache location.
\<close>

definition dispatchFlash :: "world \<Rightarrow> NodeFlashResourceModel \<Rightarrow> resolved \<Rightarrow> world \<times> (error + FlashResult)" where
  "dispatchFlash w plan r =
     (let node = fl_Node plan;
          cacheLocation = ValueString (fl_Cache plan) in
      if length (sha256 r) < 16 then (cleanup w r, Inl (Panic ''slice bounds out of range''))
      else
        (case (if cacheLocation = CacheLocationBMC
               then Client_FlashNodeLocal w node (imagePath r)
               else Client_FlashNode w node (imagePath r) (sha256 r) (fl_SkipCRC plan)) of
           (w1, Some err) \<Rightarrow> (cleanup w1 r, Inl (Wrapped ''flash operation failed'' err))
         | (w1, None) \<Rightarrow> (cleanup w1 r, Inr \<lparr>res_SHA256 = sha256 r\<rparr>)))"

definition url_given :: "NodeFlashResourceModel \<Rightarrow> bool" where
  "url_given plan \<longleftrightarrow> \<not> IsNull (fl_ImageURL plan) \<and> ValueString (fl_ImageURL plan) \<noteq> []"

definition executeFlash :: "golib \<Rightarrow> world \<Rightarrow> NodeFlashResourceModel \<Rightarrow> world \<times> (error + FlashResult)" where
  "executeFlash L w plan =
     (case NewImageCache L w of
        (w1, Inl err) \<Rightarrow> (w1, Inl (Wrapped ''failed to initialize cache'' err))
      | (w1, Inr cache) \<Rightarrow>
          (case (if url_given plan
                 then resolveURL L cache w1 plan
                 else resolveLocal L cache w1 plan) of
             (w2, Inl err) \<Rightarrow> (w2, Inl err)
           | (w2, Inr r) \<Rightarrow> dispatchFlash w2 plan r))"

section \<open>node\_power/resource.go and the USB resource\<close>

definition Client_PowerStatus :: "world \<Rightarrow> world \<times> (error + (int \<Rightarrow> bool option))" where
  "Client_PowerStatus w =
     (case call w PowerStatus of
        (w1, Some e) \<Rightarrow> (w1, Inl (IOErr e))
      | (w1, None) \<Rightarrow> (w1, Inr (power w1)))"

definition Client_PowerOn :: "world \<Rightarrow> int \<Rightarrow> world \<times> error option" where
  "Client_PowerOn w node =
     (case call w (PowerOn node) of
        (w1, Some e) \<Rightarrow> (w1, Some (IOErr e))
      | (w1, None) \<Rightarrow> (w1\<lparr>power := (power w1)(node \<mapsto> True)\<rparr>, None))"

definition Client_PowerOff :: "world \<Rightarrow> int \<Rightarrow> world \<times> error option" where
  "Client_PowerOff w node =
     (case call w (PowerOff node) of
        (w1, Some e) \<Rightarrow> (w1, Some (IOErr e))
      | (w1, None) \<Rightarrow> (w1\<lparr>power := (power w1)(node \<mapsto> False)\<rparr>, None))"

definition route_of :: "bool \<Rightarrow> string" where
  "route_of bmc = (if bmc then ''BMC'' else ''USB-A'')"

definition Client_UsbSetHost :: "world \<Rightarrow> int \<Rightarrow> bool \<Rightarrow> world \<times> error option" where
  "Client_UsbSetHost w node bmc =
     (case call w (UsbSetHost node bmc) of
        (w1, Some e) \<Rightarrow> (w1, Some (IOErr e))
      | (w1, None) \<Rightarrow>
          (w1\<lparr>usb := \<lparr>UsbNode = node, Mode = ''Host'', Route = route_of bmc\<rparr>\<rparr>, None))"

definition Client_UsbSetDevice :: "world \<Rightarrow> int \<Rightarrow> bool \<Rightarrow> world \<times> error option" where
  "Client_UsbSetDevice w node bmc =
     (case call w (UsbSetDevice node bmc) of
        (w1, Some e) \<Rightarrow> (w1, Some (IOErr e))
      | (w1, None) \<Rightarrow>
          (w1\<lparr>usb := \<lparr>UsbNode = node, Mode = ''Device'', Route = route_of bmc\<rparr>\<rparr>, None))"

definition Client_UsbSetFlash :: "world \<Rightarrow> int \<Rightarrow> bool \<Rightarrow> world \<times> error option" where
  "Client_UsbSetFlash w node bmc =
     (case call w (UsbSetFlash node bmc) of
        (w1, Some e) \<Rightarrow> (w1, Some (IOErr e))
      | (w1, None) \<Rightarrow>
          (w1\<lparr>usb := \<lparr>UsbNode = node, Mode = ''Flash'', Route = route_of bmc\<rparr>\<rparr>, None))"

text \<open>
  A resource method answers with diagnostics and, when it got that far, the new
  Terraform state. Decoding the plan (\<open>req.Plan.Get\<close>) is the framework's work and is
  taken to succeed.
\<close>

record 'a response =
  Diagnostics :: "(string \<times> error) list"
  State :: "'a option"

record NodePowerResourceModel =
  pw_ID :: "string option"
  pw_Node :: int
  pw_PowerOn :: bool

text \<open>Reading a key that a Go map does not hold gives the zero value, \<open>false\<close>.\<close>

definition map_index :: "(int \<Rightarrow> bool option) \<Rightarrow> int \<Rightarrow> bool" where
  "map_index status node = (case status node of None \<Rightarrow> False | Some b \<Rightarrow> b)"

text \<open>Lines 102 to 128, which \<open>Create\<close> and \<open>Update\<close> of the power resource share.\<close>

definition reconcilePower :: "world \<Rightarrow> int \<Rightarrow> bool \<Rightarrow> world \<times> (string \<times> error) option" where
  "reconcilePower w node desiredState =
     (case Client_PowerStatus w of
        (w1, Inl err) \<Rightarrow> (w1, Some (''Error Reading Power Status'', err))
      | (w1, Inr status) \<Rightarrow>
          (let currentState = map_index status node in
           if currentState \<noteq> desiredState then
             (case (if desiredState then Client_PowerOn w1 node else Client_PowerOff w1 node) of
                (w2, Some err) \<Rightarrow> (w2, Some (''Error Setting Power State'', err))
              | (w2, None) \<Rightarrow> (w2, None))
           else (w1, None)))"

definition NodePowerResource_Create :: "golib \<Rightarrow> world \<Rightarrow> NodePowerResourceModel \<Rightarrow> world \<times> NodePowerResourceModel response" where
  "NodePowerResource_Create L w plan =
     (case reconcilePower w (pw_Node plan) (pw_PowerOn plan) of
        (w1, Some d) \<Rightarrow> (w1, \<lparr>Diagnostics = [d], State = None\<rparr>)
      | (w1, None) \<Rightarrow>
          (w1, \<lparr>Diagnostics = [],
                State = Some (plan\<lparr>pw_ID := Some (''node-'' @ Itoa L (pw_Node plan) @ ''-power'')\<rparr>)\<rparr>))"

definition NodePowerResource_Update :: "world \<Rightarrow> NodePowerResourceModel \<Rightarrow> world \<times> NodePowerResourceModel response" where
  "NodePowerResource_Update w plan =
     (case reconcilePower w (pw_Node plan) (pw_PowerOn plan) of
        (w1, Some d) \<Rightarrow> (w1, \<lparr>Diagnostics = [d], State = None\<rparr>)
      | (w1, None) \<Rightarrow> (w1, \<lparr>Diagnostics = [], State = Some plan\<rparr>))"

record NodeUsbResourceModel =
  usb_ID :: "string option"
  usb_Node :: int
  usb_Mode :: string
  usb_BMC :: bool

definition setUsbMode :: "world \<Rightarrow> int \<Rightarrow> string \<Rightarrow> bool \<Rightarrow> world \<times> error option" where
  "setUsbMode w node mode bmc =
     (if mode = ''host'' then Client_UsbSetHost w node bmc
      else if mode = ''device'' then Client_UsbSetDevice w node bmc
      else if mode = ''flash'' then Client_UsbSetFlash w node bmc
      else (w, Some (UnknownUsbMode mode)))"

definition NodeUsbResource_Create :: "golib \<Rightarrow> world \<Rightarrow> NodeUsbResourceModel \<Rightarrow> world \<times> NodeUsbResourceModel response" where
  "NodeUsbResource_Create L w plan =
     (case setUsbMode w (usb_Node plan) (usb_Mode plan) (usb_BMC plan) of
        (w1, Some err) \<Rightarrow> (w1, \<lparr>Diagnostics = [(''Error Setting USB Mode'', err)], State = None\<rparr>)
      | (w1, None) \<Rightarrow>
          (w1, \<lparr>Diagnostics = [],
                State = Some (plan\<lparr>usb_ID := Some (''node-'' @ Itoa L (usb_Node plan) @ ''-usb'')\<rparr>)\<rparr>))"

definition NodeUsbResource_Update :: "world \<Rightarrow> NodeUsbResourceModel \<Rightarrow> world \<times> NodeUsbResourceModel response" where
  "NodeUsbResource_Update w plan =
     (case setUsbMode w (usb_Node plan) (usb_Mode plan) (usb_BMC plan) of
        (w1, Some err) \<Rightarrow> (w1, \<lparr>Diagnostics = [(''Error Setting USB Mode'', err)], State = None\<rparr>)
      | (w1, None) \<Rightarrow> (w1, \<lparr>Diagnostics = [], State = Some plan\<rparr>))"

text \<open>\<open>mapModeToLower\<close> and the mapping of \<open>Read\<close> from the BMC's answer to the model.\<close>

definition mapModeToLower :: "string \<Rightarrow> string" where
  "mapModeToLower mode =
     (if mode = ''Host'' then ''host''
      else if mode = ''Device'' then ''device''
      else if mode = ''Flash'' then ''flash''
      else mode)"

section \<open>Counting what a run did\<close>

fun is_transfer :: "prim \<Rightarrow> bool" where
  "is_transfer (CopyFile src dst) = True"
| "is_transfer (UploadFile l r) = True"
| "is_transfer p = False"

fun is_download :: "prim \<Rightarrow> bool" where
  "is_download (HttpDo url) = True"
| "is_download (HttpNewRequest url) = True"
| "is_download p = False"

fun is_state_change :: "prim \<Rightarrow> bool" where
  "is_state_change (PowerOn n) = True"
| "is_state_change (PowerOff n) = True"
| "is_state_change (UsbSetHost n b) = True"
| "is_state_change (UsbSetDevice n b) = True"
| "is_state_change (UsbSetFlash n b) = True"
| "is_state_change p = False"

fun is_state_read :: "prim \<Rightarrow> bool" where
  "is_state_read PowerStatus = True"
| "is_state_read UsbGetStatus = True"
| "is_state_read p = False"

fun is_flash :: "prim \<Rightarrow> bool" where
  "is_flash (FlashNode n p s c) = True"
| "is_flash (FlashNodeLocal n p) = True"
| "is_flash p = False"

fun writes_file :: "prim \<Rightarrow> bool" where
  "writes_file (Create p) = True"
| "writes_file (WriteBody p) = True"
| "writes_file (WriteDecoded p) = True"
| "writes_file (CopyFile s d) = True"
| "writes_file p = False"

text \<open>The primitive calls a run added to the trace of the world it started in.\<close>

definition new_calls :: "world \<Rightarrow> world \<Rightarrow> prim list" where
  "new_calls w w' = drop (length (trace w)) (trace w')"


text \<open>
  Which local path a primitive call writes or removes, and which calls change the
  BMC's files.
\<close>

fun touches :: "prim \<Rightarrow> string \<Rightarrow> bool" where
  "touches (Create p) q = (p = q)"
| "touches (WriteBody p) q = (p = q)"
| "touches (WriteDecoded p) q = (p = q)"
| "touches (CopyFile s d) q = (d = q)"
| "touches (Remove p) q = (p = q)"
| "touches p q = False"

fun remote_write :: "prim \<Rightarrow> bool" where
  "remote_write (ExecuteCommand c) = True"
| "remote_write (UploadFile l r) = True"
| "remote_write p = False"

text \<open>
  \<open>only P w w'\<close>: a run took the world from \<open>w\<close> to \<open>w'\<close> calling only primitives
  that satisfy \<open>P\<close>. The oracle, the HTTP servers, the home directory and the names of
  temporary directories are as before; a local file changed only if a call of the run
  names its path; the BMC's files changed only if the run executed a command or
  uploaded a file.
\<close>

definition only :: "(prim \<Rightarrow> bool) \<Rightarrow> world \<Rightarrow> world \<Rightarrow> bool" where
  "only P w w' \<longleftrightarrow>
     fault w' = fault w \<and> http w' = http w \<and> home w' = home w \<and> tmp_name w' = tmp_name w
     \<and> (\<exists>xs. trace w' = trace w @ xs \<and> list_all P xs
           \<and> (\<forall>q. \<not> list_ex (\<lambda>x. touches x q) xs \<longrightarrow> lfiles w' q = lfiles w q)
           \<and> (\<not> list_ex remote_write xs \<longrightarrow> rfiles w' = rfiles w \<and> rdirs w' = rdirs w)
           \<and> (MkdirTemp \<notin> set xs \<longrightarrow> tmp_seq w' = tmp_seq w))"

text \<open>The primitives each step of a provisioning run may call.\<close>

fun init_prim :: "prim \<Rightarrow> bool" where
  "init_prim UserHomeDir = True"
| "init_prim (MkdirAll d) = True"
| "init_prim p = False"

fun lookup_prim :: "prim \<Rightarrow> bool" where
  "lookup_prim (Stat p) = True"
| "lookup_prim (ListDirectory d) = True"
| "lookup_prim p = False"

text \<open>A download works on two local paths: the downloaded file and the decompressed one.\<close>

fun fetch_on :: "string \<Rightarrow> string \<Rightarrow> prim \<Rightarrow> bool" where
  "fetch_on a b MkdirTemp = True"
| "fetch_on a b (HttpNewRequest u) = True"
| "fetch_on a b (HttpDo u) = True"
| "fetch_on a b (Create p) = (p = a \<or> p = b)"
| "fetch_on a b (WriteBody p) = (p = a \<or> p = b)"
| "fetch_on a b (Open p) = (p = a \<or> p = b)"
| "fetch_on a b (WriteDecoded p) = (p = a \<or> p = b)"
| "fetch_on a b (Remove p) = (p = a \<or> p = b)"
| "fetch_on a b (HashFile p) = (p = a \<or> p = b)"
| "fetch_on a b p = False"

fun store_prim :: "prim \<Rightarrow> bool" where
  "store_prim (Stat p) = True"
| "store_prim (Open p) = True"
| "store_prim (Create p) = True"
| "store_prim (CopyFile s d) = True"
| "store_prim (Remove p) = True"
| "store_prim (ExecuteCommand c) = True"
| "store_prim (ListDirectory d) = True"
| "store_prim (UploadFile l r) = True"
| "store_prim p = False"

fun flash_prim :: "prim \<Rightarrow> bool" where
  "flash_prim (FlashNode n p s c) = True"
| "flash_prim (FlashNodeLocal n p) = True"
| "flash_prim (Remove p) = True"
| "flash_prim p = False"

text \<open>
  The directory and the file a download goes to, the compression it detects, and the
  flash call a resolved image is dispatched to, as the source computes them.
\<close>

definition dest_dir :: "world \<Rightarrow> DownloadOptions option \<Rightarrow> string" where
  "dest_dir w opts =
     (case opts of
        None \<Rightarrow> tmp_name w (tmp_seq w)
      | Some opts \<Rightarrow> if DestDir opts = [] then tmp_name w (tmp_seq w) else DestDir opts)"

definition download_path :: "golib \<Rightarrow> world \<Rightarrow> string \<Rightarrow> DownloadOptions option \<Rightarrow> string" where
  "download_path L w url opts = Join L [dest_dir w opts, Base L url]"

definition output_path :: "golib \<Rightarrow> world \<Rightarrow> string \<Rightarrow> DownloadOptions option \<Rightarrow> string" where
  "output_path L w url opts =
     outputPath (download_path L w url opts)
       (detectCompression L url (ContentType (http w url)))"

definition flash_call :: "NodeFlashResourceModel \<Rightarrow> resolved \<Rightarrow> prim" where
  "flash_call plan r =
     (if ValueString (fl_Cache plan) = CacheLocationBMC
      then FlashNodeLocal (fl_Node plan) (imagePath r)
      else FlashNode (fl_Node plan) (imagePath r) (sha256 r) (fl_SkipCRC plan))"

text \<open>
  The state-changing commands the power resource issues after it has read the power
  status, and the command the USB resource issues, as the source chooses them.
\<close>

definition power_commands :: "world \<Rightarrow> NodePowerResourceModel \<Rightarrow> prim list" where
  "power_commands w plan =
     (if fault w PowerStatus = None \<and> map_index (power w) (pw_Node plan) \<noteq> pw_PowerOn plan
      then [if pw_PowerOn plan then PowerOn (pw_Node plan) else PowerOff (pw_Node plan)]
      else [])"

definition usb_command :: "NodeUsbResourceModel \<Rightarrow> prim list" where
  "usb_command plan =
     (if usb_Mode plan = ''host'' then [UsbSetHost (usb_Node plan) (usb_BMC plan)]
      else if usb_Mode plan = ''device'' then [UsbSetDevice (usb_Node plan) (usb_BMC plan)]
      else if usb_Mode plan = ''flash'' then [UsbSetFlash (usb_Node plan) (usb_BMC plan)]
      else [])"

text \<open>The record \<open>executeFlash\<close> has resolved after a download, and for a local image.\<close>

definition url_resolved :: "DownloadResult \<Rightarrow> resolved" where
  "url_resolved res = \<lparr>imagePath = Path res, sha256 = SHA256 res, tempFile = Path res\<rparr>"

definition local_resolved :: "NodeFlashResourceModel \<Rightarrow> string \<Rightarrow> resolved" where
  "local_resolved plan sha =
     \<lparr>imagePath = ValueString (fl_ImagePath plan), sha256 = sha, tempFile = []\<rparr>"

definition flash_outcome :: "world \<Rightarrow> NodeFlashResourceModel \<Rightarrow> resolved \<Rightarrow> error + FlashResult" where
  "flash_outcome w plan r =
     (case fault w (flash_call plan r) of
        None \<Rightarrow> Inr \<lparr>res_SHA256 = sha256 r\<rparr>
      | Some e \<Rightarrow> Inl (Wrapped ''flash operation failed'' (IOErr e)))"

text \<open>
  The probing calls of the cache (the stat of the local cache file, the \<open>mkdir -p\<close> and
  the listing of the BMC cache directory) do not fail for a reason outside the cache's
  own state; and what a backend holds under a path.
\<close>

definition probes_ok :: "golib \<Rightarrow> ImageCache \<Rightarrow> world \<Rightarrow> string \<Rightarrow> bool" where
  "probes_ok L c w sha \<longleftrightarrow>
     fault w (Stat (Join L [localDir c, sha @ ''.img''])) = None
     \<and> fault w (ExecuteCommand (''mkdir -p '' @ bmcCacheDir)) = None
     \<and> fault w (ListDirectory bmcCacheDir) = None"

definition stored_content :: "world \<Rightarrow> string \<Rightarrow> string \<Rightarrow> string option" where
  "stored_content w location p =
     (if location = CacheLocationLocal then lfiles w p
      else if location = CacheLocationBMC then map_of (rfiles w) p
      else None)"

text \<open>The world after a successful \<open>mkdir -p\<close> of the BMC cache directory.\<close>

definition after_mkdir :: "world \<Rightarrow> world" where
  "after_mkdir w =
     run_command (''mkdir -p '' @ bmcCacheDir)
       (w\<lparr>trace := trace w @ [ExecuteCommand (''mkdir -p '' @ bmcCacheDir)]\<rparr>)"

section \<open>A concrete library and concrete worlds\<close>

text \<open>
  Stand-ins for the library functions, simple enough to evaluate: paths are joined
  with a slash, the base name is what follows the last slash, no letter is
  lower-cased, a number is printed right when it is a node number (1 to 4), the three
  decompressors hand the bytes through, and the hash of a file is its content behind a
  fixed sixteen-character prefix.
\<close>

fun join_slash :: "string list \<Rightarrow> string" where
  "join_slash [] = []"
| "join_slash [x] = x"
| "join_slash (x # y # ys) = x @ ''/'' @ join_slash (y # ys)"

definition base_name :: "string \<Rightarrow> string" where
  "base_name p = rev (takeWhile (\<lambda>c. c \<noteq> CHR ''/'') (rev p))"

definition toy_sha :: "string \<Rightarrow> string" where
  "toy_sha content = ''0123456789abcdef'' @ content"

definition node_digit :: "int \<Rightarrow> string" where
  "node_digit n =
     (if n = 1 then ''1'' else if n = 2 then ''2'' else if n = 3 then ''3''
      else if n = 4 then ''4'' else ''?'')"

definition L0 :: golib where
  "L0 = \<lparr>Join = join_slash, Base = base_name, ToLower = (\<lambda>s. s), Itoa = node_digit,
          sha256_hex = toy_sha, xz_NewReader = Decoded, gzip_NewReader = Decoded,
          zip_OpenReader = (\<lambda>b. ZipFiles [Decoded b])\<rparr>"

text \<open>
  A fresh machine: no local file, no BMC cache directory, nothing fails, every URL
  answers with the given status and the body \<open>IMG\<close>, node 1 is powered on, and the USB
  of node 1 is in host mode on the USB-A port.
\<close>

definition fresh :: "int \<Rightarrow> world" where
  "fresh status =
     \<lparr>lfiles = Map.empty, rdirs = [], rfiles = [], fault = (\<lambda>p. None),
      home = ''/home/u'', tmp_name = (\<lambda>n. ''/tmp/dl''), tmp_seq = 0,
      http = (\<lambda>url. \<lparr>StatusCode = status, ContentType = [], Body = ''IMG''\<rparr>),
      power = [1 \<mapsto> True],
      usb = \<lparr>UsbNode = 1, Mode = ''Host'', Route = ''USB-A''\<rparr>,
      trace = []\<rparr>"

definition cache0 :: ImageCache where
  "cache0 = \<lparr>localDir = ''/home/u/.cache/terraform-provider-turingpi''\<rparr>"

text \<open>
  The BMC cache directory exists and holds the image \<open>abc\<close>, but listing it is
  refused.
\<close>

definition list_denied :: world where
  "list_denied = (fresh 200)\<lparr>rdirs := [''/tmp/tpi-cache''],
     rfiles := [(''/tmp/tpi-cache/abc.img'', ''IMG'')],
     fault := (\<lambda>p. if p = ListDirectory ''/tmp/tpi-cache'' then Some ''permission denied''
                     else None)\<rparr>"

text \<open>A plan that asks for what the fresh machine already has: node 1, host mode, USB-A.\<close>

definition usb_plan :: NodeUsbResourceModel where
  "usb_plan = \<lparr>usb_ID = None, usb_Node = 1, usb_Mode = ''host'', usb_BMC = False\<rparr>"

definition url0 :: string where
  "url0 = ''http://h/ubuntu.img.xz''"

text \<open>Plans and worlds for provisioning runs.\<close>

definition flash_plan :: "string option \<Rightarrow> string option \<Rightarrow> string option \<Rightarrow> string \<Rightarrow> NodeFlashResourceModel" where
  "flash_plan url path sha cache =
     \<lparr>fl_Node = 1, fl_ImageURL = url, fl_ImagePath = path, fl_SHA256 = sha,
      fl_Cache = Some cache, fl_SkipCRC = False\<rparr>"

definition sha_img :: string where
  "sha_img = ''0123456789abcdefIMG''"

text \<open>The local cache already holds the image whose hash is \<open>sha_img\<close>.\<close>

definition cached_local :: world where
  "cached_local = (fresh 200)\<lparr>lfiles :=
     [''/home/u/.cache/terraform-provider-turingpi/0123456789abcdefIMG.img'' \<mapsto> ''IMG'']\<rparr>"

definition hit_plan :: NodeFlashResourceModel where
  "hit_plan = flash_plan (Some url0) None (Some sha_img) ''local''"

text \<open>A plan whose expected hash is not the hash of what the URL serves.\<close>

definition wrong_plan :: NodeFlashResourceModel where
  "wrong_plan = flash_plan (Some url0) None (Some ''ffffffffffffffffffff'') ''local''"

text \<open>A fresh download that is to be cached on the BMC.\<close>

definition bmc_plan :: NodeFlashResourceModel where
  "bmc_plan = flash_plan (Some url0) None None ''bmc''"

text \<open>
  A local image \<open>/img\<close> that is to be cached on the BMC, on a BMC that flashes from
  one of its own paths only when the file is in its cache directory; and the same
  machine with the SSH command channel down, so that the cache store fails.
\<close>

definition local_bmc_plan :: NodeFlashResourceModel where
  "local_bmc_plan = flash_plan None (Some ''/img'') (Some sha_img) ''bmc''"

definition strict_bmc :: "prim \<Rightarrow> string option" where
  "strict_bmc p =
     (case p of
        FlashNodeLocal n path \<Rightarrow>
          if take 15 path = ''/tmp/tpi-cache/'' then None else Some ''no such file on the BMC''
      | _ \<Rightarrow> None)"

definition ssh_down :: "prim \<Rightarrow> string option" where
  "ssh_down p =
     (case p of
        ExecuteCommand c \<Rightarrow> Some ''ssh: connection refused''
      | _ \<Rightarrow> strict_bmc p)"

definition local_img :: "(prim \<Rightarrow> string option) \<Rightarrow> world" where
  "local_img f = (fresh 200)\<lparr>lfiles := [''/img'' \<mapsto> ''IMG''], fault := f\<rparr>"

text \<open>A well-formed hash that is the hash of no file used here.\<close>

definition zeros64 :: string where
  "zeros64 = ''0000000000000000000000000000000000000000000000000000000000000000''"

text \<open>The oracle under which no primitive fails.\<close>

definition plain :: "prim \<Rightarrow> string option" where
  "plain p = None"

section \<open>Properties\<close>

lemmas env_defs = call_def os_UserHomeDir_def os_MkdirAll_def os_MkdirTemp_def os_Stat_def
  os_Open_def os_Create_def file_content_def io_Copy_def os_Remove_def
  Client_ListDirectory_def Client_ExecuteCommand_def Client_UploadFile_def
  Client_FlashNode_def Client_FlashNodeLocal_def http_NewRequest_def http_Do_def
  write_body_def write_decoded_def Client_PowerStatus_def Client_PowerOn_def
  Client_PowerOff_def Client_UsbSetHost_def Client_UsbSetDevice_def Client_UsbSetFlash_def

lemmas loc_defs = CacheLocationLocal_def CacheLocationBMC_def CacheLocationNone_def

subsection \<open>Runs and their traces\<close>

lemma only_refl [simp]: "only P w w"
  by (simp add: only_def)

lemma only_trans: "only P w w1 \<Longrightarrow> only P w1 w2 \<Longrightarrow> only P w w2"
  unfolding only_def by clarsimp

lemma only_mono: "only P w w' \<Longrightarrow> (\<And>p. P p \<Longrightarrow> Q p) \<Longrightarrow> only Q w w'"
  unfolding only_def by (auto simp: list_all_iff)

lemma only_new_calls:
  "only P w w' \<Longrightarrow> trace w' = trace w @ new_calls w w' \<and> list_all P (new_calls w w')"
  by (auto simp: only_def new_calls_def)

lemma only_filter:
  "only P w w' \<Longrightarrow> (\<And>p. P p \<Longrightarrow> \<not> Q p) \<Longrightarrow> filter Q (new_calls w w') = []"
  by (auto simp: only_def new_calls_def list_all_iff filter_empty_conv)

lemma only_static:
  "only P w w' \<Longrightarrow>
     fault w' = fault w \<and> http w' = http w \<and> home w' = home w \<and> tmp_name w' = tmp_name w"
  by (simp add: only_def)

lemma only_lfiles:
  "only P w w' \<Longrightarrow> (\<And>p. P p \<Longrightarrow> \<not> touches p q) \<Longrightarrow> lfiles w' q = lfiles w q"
  by (auto simp: only_def list_all_iff list_ex_iff)

lemma only_remote:
  "only P w w' \<Longrightarrow> (\<And>p. P p \<Longrightarrow> \<not> remote_write p) \<Longrightarrow>
     rfiles w' = rfiles w \<and> rdirs w' = rdirs w"
  by (auto simp: only_def list_all_iff list_ex_iff)

lemma only_tmp_seq: "only P w w' \<Longrightarrow> \<not> P MkdirTemp \<Longrightarrow> tmp_seq w' = tmp_seq w"
  by (auto simp: only_def list_all_iff)

lemma new_calls_trans:
  "only P w w1 \<Longrightarrow> only Q w1 w2 \<Longrightarrow> new_calls w w2 = new_calls w w1 @ new_calls w1 w2"
  by (auto simp: only_def new_calls_def)

lemma new_calls_same [simp]: "new_calls w w = []"
  by (simp add: new_calls_def)

subsection \<open>The primitives\<close>

lemma os_Remove_only: "P (Remove p) \<Longrightarrow> only P w (os_Remove w p)"
  by (auto simp: only_def os_Remove_def call_def split: option.splits)

lemma call_only: "call w p = (w', r) \<Longrightarrow> P p \<Longrightarrow> p \<noteq> MkdirTemp \<Longrightarrow> only P w w'"
  by (auto simp: only_def call_def)

lemma os_UserHomeDir_only: "os_UserHomeDir w = (w', r) \<Longrightarrow> P UserHomeDir \<Longrightarrow> only P w w'"
  by (auto simp: os_UserHomeDir_def only_def call_def split: option.splits)

lemma os_MkdirAll_only: "os_MkdirAll w d = (w', r) \<Longrightarrow> P (MkdirAll d) \<Longrightarrow> only P w w'"
  by (auto simp: os_MkdirAll_def only_def call_def split: option.splits)

lemma os_MkdirTemp_only: "os_MkdirTemp w = (w', r) \<Longrightarrow> P MkdirTemp \<Longrightarrow> only P w w'"
  by (auto simp: os_MkdirTemp_def only_def call_def split: option.splits)

lemma os_Stat_only: "os_Stat w p = (w', r) \<Longrightarrow> P (Stat p) \<Longrightarrow> only P w w'"
  by (auto simp: os_Stat_def only_def call_def split: option.splits)

lemma os_Open_only: "os_Open w p = (w', r) \<Longrightarrow> P (Open p) \<Longrightarrow> only P w w'"
  by (auto simp: os_Open_def only_def call_def split: option.splits)

lemma os_Create_only: "os_Create w p = (w', r) \<Longrightarrow> P (Create p) \<Longrightarrow> only P w w'"
  by (auto simp: os_Create_def only_def call_def split: option.splits)

lemma io_Copy_only: "io_Copy w s d = (w', r) \<Longrightarrow> P (CopyFile s d) \<Longrightarrow> only P w w'"
  by (auto simp: io_Copy_def only_def call_def split: option.splits)

lemma Client_ListDirectory_only:
  "Client_ListDirectory w d = (w', r) \<Longrightarrow> P (ListDirectory d) \<Longrightarrow> only P w w'"
  by (auto simp: Client_ListDirectory_def only_def call_def split: option.splits if_splits)

lemma Client_ExecuteCommand_only:
  "Client_ExecuteCommand w c = (w', r) \<Longrightarrow> P (ExecuteCommand c) \<Longrightarrow> only P w w'"
  by (auto simp: Client_ExecuteCommand_def run_command_def only_def call_def
      split: option.splits if_splits)

lemma Client_UploadFile_only:
  "Client_UploadFile w l r = (w', e) \<Longrightarrow> P (UploadFile l r) \<Longrightarrow> only P w w'"
  by (auto simp: Client_UploadFile_def only_def call_def split: option.splits if_splits)

lemma Client_FlashNode_only:
  "Client_FlashNode w n p s c = (w', e) \<Longrightarrow> P (FlashNode n p s c) \<Longrightarrow> only P w w'"
  by (auto simp: Client_FlashNode_def only_def call_def split: option.splits)

lemma Client_FlashNodeLocal_only:
  "Client_FlashNodeLocal w n p = (w', e) \<Longrightarrow> P (FlashNodeLocal n p) \<Longrightarrow> only P w w'"
  by (auto simp: Client_FlashNodeLocal_def only_def call_def split: option.splits)

lemma http_NewRequest_only:
  "http_NewRequest w u = (w', e) \<Longrightarrow> P (HttpNewRequest u) \<Longrightarrow> only P w w'"
  by (auto simp: http_NewRequest_def only_def call_def split: option.splits)

lemma http_Do_only: "http_Do w u = (w', e) \<Longrightarrow> P (HttpDo u) \<Longrightarrow> only P w w'"
  by (auto simp: http_Do_def only_def call_def split: option.splits)

lemma write_body_only: "write_body w p b = (w', e) \<Longrightarrow> P (WriteBody p) \<Longrightarrow> only P w w'"
  by (auto simp: write_body_def only_def call_def split: option.splits)

lemma write_decoded_only:
  "write_decoded w r d m = (w', e) \<Longrightarrow> P (WriteDecoded d) \<Longrightarrow> only P w w'"
  by (auto simp: write_decoded_def only_def call_def split: option.splits decoded.splits)

subsection \<open>What each function of the provider calls\<close>

lemma NewImageCache_only: "NewImageCache L w = (w', r) \<Longrightarrow> only init_prim w w'"
  unfolding NewImageCache_def Let_def
  by (auto split: prod.splits option.splits sum.splits
      dest!: os_UserHomeDir_only [where P = init_prim, simplified]
        os_MkdirAll_only [where P = init_prim, simplified]
      elim!: only_trans)

lemma getLocalCachePath_only: "getLocalCachePath L c w h = (w', r) \<Longrightarrow> only lookup_prim w w'"
  unfolding getLocalCachePath_def Let_def
  by (auto split: prod.splits option.splits if_splits
      dest!: os_Stat_only [where P = lookup_prim, simplified])

lemma getBMCCachePath_only:
  "getBMCCachePath w h = (w', r) \<Longrightarrow> P (ListDirectory bmcCacheDir) \<Longrightarrow> only P w w'"
  unfolding getBMCCachePath_def Let_def
  by (auto split: prod.splits sum.splits if_splits dest!: Client_ListDirectory_only [where P = P])

lemma GetCachedImagePath_only:
  "GetCachedImagePath L c w h loc = (w', r) \<Longrightarrow> only lookup_prim w w'"
  unfolding GetCachedImagePath_def
  by (auto split: if_splits dest!: getLocalCachePath_only
      getBMCCachePath_only [where P = lookup_prim, simplified])

lemma cacheLocally_only: "cacheLocally L c w s h = (w', r) \<Longrightarrow> only store_prim w w'"
  unfolding cacheLocally_def Let_def
  by (auto split: prod.splits option.splits
      dest!: os_Stat_only [where P = store_prim, simplified]
        os_Open_only [where P = store_prim, simplified]
        os_Create_only [where P = store_prim, simplified]
        io_Copy_only [where P = store_prim, simplified]
      elim!: only_trans intro!: os_Remove_only)

lemma cacheToBMC_only: "cacheToBMC w l h = (w', r) \<Longrightarrow> only store_prim w w'"
  unfolding cacheToBMC_def Let_def
  by (auto split: prod.splits option.splits sum.splits if_splits
      dest!: Client_ExecuteCommand_only [where P = store_prim, simplified]
        getBMCCachePath_only [where P = store_prim, simplified]
        Client_UploadFile_only [where P = store_prim, simplified]
      elim!: only_trans)

lemma CacheImage_only: "CacheImage L c w l h loc = (w', r) \<Longrightarrow> only store_prim w w'"
  unfolding CacheImage_def
  by (auto split: if_splits dest!: cacheLocally_only cacheToBMC_only)

lemma decompressXZ_only:
  "decompressXZ L w s d = (w', r) \<Longrightarrow> P (Open s) \<Longrightarrow> P (Create d) \<Longrightarrow> P (WriteDecoded d)
   \<Longrightarrow> only P w w'"
  unfolding decompressXZ_def
  by (auto split: prod.splits option.splits decoded.splits
      dest!: os_Open_only [where P = P] os_Create_only [where P = P]
        write_decoded_only [where P = P]
      elim!: only_trans)

lemma decompressGzip_only:
  "decompressGzip L w s d = (w', r) \<Longrightarrow> P (Open s) \<Longrightarrow> P (Create d) \<Longrightarrow> P (WriteDecoded d)
   \<Longrightarrow> only P w w'"
  unfolding decompressGzip_def
  by (auto split: prod.splits option.splits decoded.splits
      dest!: os_Open_only [where P = P] os_Create_only [where P = P]
        write_decoded_only [where P = P]
      elim!: only_trans)

lemma decompressZip_only:
  "decompressZip L w s d = (w', r) \<Longrightarrow> P (Open s) \<Longrightarrow> P (Create d) \<Longrightarrow> P (WriteDecoded d)
   \<Longrightarrow> only P w w'"
  unfolding decompressZip_def
  by (auto split: prod.splits option.splits decoded.splits zip_archive.splits list.splits
      dest!: os_Open_only [where P = P] os_Create_only [where P = P]
        write_decoded_only [where P = P]
      elim!: only_trans)

lemma decompress_only:
  "decompress L w p c = (w', r) \<Longrightarrow> only (fetch_on p (outputPath p c)) w w'"
  unfolding decompress_def
  by (auto split: if_splits
      dest!: decompressXZ_only [where P = "fetch_on p (outputPath p c)"]
        decompressGzip_only [where P = "fetch_on p (outputPath p c)"]
        decompressZip_only [where P = "fetch_on p (outputPath p c)"])

lemma decompress_Inr: "decompress L w p c = (w', Inr out) \<Longrightarrow> out = outputPath p c"
  by (auto simp: decompress_def decompressXZ_def decompressGzip_def decompressZip_def
      write_decoded_def
      split: if_splits prod.splits option.splits decoded.splits zip_archive.splits list.splits)

lemma calculateSHA256_only:
  "calculateSHA256 L w p = (w', r) \<Longrightarrow> P (Open p) \<Longrightarrow> P (HashFile p) \<Longrightarrow> only P w w'"
  unfolding calculateSHA256_def
  by (auto split: prod.splits option.splits
      dest!: os_Open_only [where P = P] call_only [where P = P]
      elim!: only_trans)

lemma destDirStep_only: "destDirStep w opts = (w', r) \<Longrightarrow> P MkdirTemp \<Longrightarrow> only P w w'"
  unfolding destDirStep_def
  by (auto split: prod.splits sum.splits if_splits dest!: os_MkdirTemp_only [where P = P])

lemma destDirStep_Inr:
  "destDirStep w opts = (w', Inr d) \<Longrightarrow> d = dest_dir w (Some opts)"
  by (auto simp: destDirStep_def dest_dir_def os_MkdirTemp_def call_def
      split: prod.splits sum.splits if_splits option.splits)

lemma decompressStep_only:
  "decompressStep L w dp c = (w', r) \<Longrightarrow> only (fetch_on dp (outputPath dp c)) w w'"
  unfolding decompressStep_def
  by (auto split: prod.splits sum.splits if_splits
      dest!: decompress_only elim!: only_trans intro!: os_Remove_only)

lemma decompressStep_Inr:
  "decompressStep L w dp c = (w', Inr fp) \<Longrightarrow> fp = dp \<or> fp = outputPath dp c"
  by (auto simp: decompressStep_def split: prod.splits sum.splits if_splits
      dest: decompress_Inr)

lemma verifyStep_only:
  "verifyStep L w opts fp = (w', r) \<Longrightarrow> P (Open fp) \<Longrightarrow> P (HashFile fp) \<Longrightarrow> P (Remove fp)
   \<Longrightarrow> only P w w'"
  unfolding verifyStep_def
  by (auto split: prod.splits sum.splits if_splits
      dest!: calculateSHA256_only [where P = P] elim!: only_trans intro!: os_Remove_only)

lemma finishDownload_only:
  assumes "finishDownload L w opts dp c = (w', r)"
  shows "only (fetch_on dp (outputPath dp c)) w w'"
proof (cases "decompressStep L w dp c")
  case (Pair w1 r1)
  note 1 = decompressStep_only [OF Pair]
  show ?thesis
  proof (cases r1)
    case (Inl e)
    with assms Pair 1 show ?thesis by (simp add: finishDownload_def)
  next
    case (Inr fp)
    with Pair have "fp = dp \<or> fp = outputPath dp c"
      using decompressStep_Inr by blast
    moreover have "verifyStep L w1 opts fp = (w', r)"
      using assms Pair Inr by (simp add: finishDownload_def)
    ultimately have "only (fetch_on dp (outputPath dp c)) w1 w'"
      by (auto dest!: verifyStep_only [where P = "fetch_on dp (outputPath dp c)"])
    with 1 show ?thesis by (rule only_trans)
  qed
qed

lemma http_Do_Inr: "http_Do w u = (w', Inr resp) \<Longrightarrow> resp = http w u"
  by (auto simp: http_Do_def call_def split: option.splits)

lemma dest_dir_opts:
  "dest_dir w (Some (case opts0 of None \<Rightarrow> \<lparr>ExpectedSHA256 = [], DestDir = []\<rparr> | Some opts \<Rightarrow> opts))
     = dest_dir w opts0"
  by (simp add: dest_dir_def split: option.splits)

lemma saveDownload_only:
  assumes "saveDownload L w opts url destDir resp = (w', r)"
  shows "only (fetch_on (Join L [destDir, Base L url])
           (outputPath (Join L [destDir, Base L url])
              (detectCompression L url (ContentType resp)))) w w'"
  using assms unfolding saveDownload_def Let_def
  by (auto split: prod.splits option.splits
      dest!: os_Create_only [where P = "fetch_on (Join L [destDir, Base L url])
           (outputPath (Join L [destDir, Base L url])
              (detectCompression L url (ContentType resp)))"]
        write_body_only [where P = "fetch_on (Join L [destDir, Base L url])
           (outputPath (Join L [destDir, Base L url])
              (detectCompression L url (ContentType resp)))"]
        finishDownload_only
      elim!: only_trans)

lemma DownloadImage_only:
  assumes run: "DownloadImage L w url opts0 = (w', r)"
  shows "only (fetch_on (download_path L w url opts0) (output_path L w url opts0)) w w'"
proof -
  let ?P = "fetch_on (download_path L w url opts0) (output_path L w url opts0)"
  define opts where
    "opts = (case opts0 of None \<Rightarrow> \<lparr>ExpectedSHA256 = [], DestDir = []\<rparr> | Some opts \<Rightarrow> opts)"
  obtain w1 r1 where s1: "destDirStep w opts = (w1, r1)" by fastforce
  have o1: "only ?P w w1" using destDirStep_only [OF s1] by simp
  show ?thesis
  proof (cases r1)
    case (Inl e)
    with run s1 o1 show ?thesis by (simp add: DownloadImage_def opts_def [symmetric])
  next
    case d: (Inr destDir)
    have dd: "destDir = dest_dir w opts0"
      using destDirStep_Inr s1 d dest_dir_opts [of w opts0] by (simp add: opts_def)
    obtain w2 r2 where s2: "http_NewRequest w1 url = (w2, r2)" by fastforce
    have o2: "only ?P w w2" using o1 http_NewRequest_only [OF s2, of ?P] by (auto elim: only_trans)
    show ?thesis
    proof (cases r2)
      case (Some e)
      with run s1 d s2 o2 show ?thesis by (simp add: DownloadImage_def opts_def [symmetric])
    next
      case None
      obtain w3 r3 where s3: "http_Do w2 url = (w3, r3)" by fastforce
      have o3: "only ?P w w3" using o2 http_Do_only [OF s3, of ?P] by (auto elim: only_trans)
      show ?thesis
      proof (cases r3)
        case (Inl e)
        with run s1 d s2 None s3 o3 show ?thesis
          by (simp add: DownloadImage_def opts_def [symmetric])
      next
        case (Inr resp)
        have resp: "resp = http w url"
          using http_Do_Inr s3 Inr only_static [OF o2] by metis
        show ?thesis
        proof (cases "StatusCode resp = StatusOK")
          case False
          with run s1 d s2 None s3 Inr o3 show ?thesis
            by (simp add: DownloadImage_def opts_def [symmetric])
        next
          case True
          with run s1 d s2 None s3 Inr
          have "saveDownload L w3 opts url destDir resp = (w', r)"
            by (simp add: DownloadImage_def opts_def [symmetric])
          from saveDownload_only [OF this] have "only ?P w3 w'"
            by (simp add: download_path_def output_path_def dd resp)
          with o3 show ?thesis by (rule only_trans)
        qed
      qed
    qed
  qed
qed

subsection \<open>Which errors the cache functions can return\<close>

lemma getLocalCachePath_err:
  "getLocalCachePath L c w sha = (w', Inl e) \<Longrightarrow> \<exists>m. e = IOErr m"
  by (auto simp: getLocalCachePath_def os_Stat_def call_def Let_def
      split: option.splits if_splits)

lemma getBMCCachePath_no_err: "snd (getBMCCachePath w sha) \<noteq> Inl e"
  by (auto simp: getBMCCachePath_def Let_def split: prod.splits sum.splits)

lemma getBMCCachePath_Inl: "getBMCCachePath w sha = (w', Inl e) \<Longrightarrow> False"
  using getBMCCachePath_no_err [of w sha e] by simp

lemma cacheLocally_err:
  "cacheLocally L c w p sha = (w', Inl e) \<Longrightarrow> \<exists>m e'. e = Wrapped m e'"
  by (auto simp: cacheLocally_def Let_def split: prod.splits option.splits)

lemma cacheToBMC_err:
  "cacheToBMC w p sha = (w', Inl e) \<Longrightarrow> \<exists>m e'. e = Wrapped m e'"
  by (auto simp: cacheToBMC_def Let_def dest: getBMCCachePath_Inl
      split: prod.splits option.splits sum.splits if_splits)

text \<open>
  C10. For a location string other than \<open>local\<close>, \<open>bmc\<close> and \<open>none\<close>, both
  \<open>GetCachedImagePath\<close> and \<open>CacheImage\<close> return the error "unknown cache location"
  and leave the world as it was: no primitive is called, nothing is written. For each
  of the three strings neither function returns that error, so the accepted locations
  are exactly these three.
\<close>

theorem unknown_location_rejected:
  "(location \<notin> {''local'', ''bmc'', ''none''} \<longrightarrow>
      GetCachedImagePath L c w sha location = (w, Inl (UnknownCacheLocation location))
      \<and> CacheImage L c w p sha location = (w, Inl (UnknownCacheLocation location)))
   \<and> (location \<in> {''local'', ''bmc'', ''none''} \<longrightarrow>
      snd (GetCachedImagePath L c w sha location) \<noteq> Inl (UnknownCacheLocation location)
      \<and> snd (CacheImage L c w p sha location) \<noteq> Inl (UnknownCacheLocation location))"
proof (intro conjI impI)
  assume "location \<notin> {''local'', ''bmc'', ''none''}"
  then show "GetCachedImagePath L c w sha location = (w, Inl (UnknownCacheLocation location))"
    and "CacheImage L c w p sha location = (w, Inl (UnknownCacheLocation location))"
    by (simp_all add: GetCachedImagePath_def CacheImage_def loc_defs)
next
  assume a: "location \<in> {''local'', ''bmc'', ''none''}"
  show "snd (GetCachedImagePath L c w sha location) \<noteq> Inl (UnknownCacheLocation location)"
  proof
    assume b: "snd (GetCachedImagePath L c w sha location) = Inl (UnknownCacheLocation location)"
    obtain w' where "GetCachedImagePath L c w sha location = (w', Inl (UnknownCacheLocation location))"
      using b by (metis prod.collapse)
    with a show False
      using getLocalCachePath_err [of L c w sha w' "UnknownCacheLocation location"]
        getBMCCachePath_no_err [of w sha "UnknownCacheLocation location"]
      by (auto simp: GetCachedImagePath_def loc_defs split: if_splits)
  qed
  show "snd (CacheImage L c w p sha location) \<noteq> Inl (UnknownCacheLocation location)"
  proof
    assume b: "snd (CacheImage L c w p sha location) = Inl (UnknownCacheLocation location)"
    obtain w' where "CacheImage L c w p sha location = (w', Inl (UnknownCacheLocation location))"
      using b by (metis prod.collapse)
    with a show False
      using cacheLocally_err [of L c w p sha w' "UnknownCacheLocation location"]
        cacheToBMC_err [of w p sha w' "UnknownCacheLocation location"]
      by (auto simp: CacheImage_def loc_defs split: if_splits)
  qed
qed

theorem unknown_location_rejected_witness:
  "''usb'' \<notin> {''local'', ''bmc'', ''none''}
   \<and> GetCachedImagePath L0 cache0 (fresh 200) ''abc'' ''usb''
       = (fresh 200, Inl (UnknownCacheLocation ''usb''))
   \<and> CacheImage L0 cache0 (fresh 200) ''/img'' ''abc'' ''usb''
       = (fresh 200, Inl (UnknownCacheLocation ''usb''))
   \<and> ''bmc'' \<in> {''local'', ''bmc'', ''none''}
   \<and> snd (GetCachedImagePath L0 cache0 (fresh 200) ''abc'' ''bmc'')
       \<noteq> Inl (UnknownCacheLocation ''bmc'')
   \<and> snd (CacheImage L0 cache0 (fresh 200) ''/img'' ''abc'' ''bmc'')
       \<noteq> Inl (UnknownCacheLocation ''bmc'')"
  using unknown_location_rejected [of "''usb''" L0 cache0 "fresh 200" "''abc''" "''/img''"]
    unknown_location_rejected [of "''bmc''" L0 cache0 "fresh 200" "''abc''" "''/img''"]
  by simp

text \<open>
  C2. The claim wants a list failure other than "directory does not exist" to reach
  the caller as an error. \<open>getBMCCachePath\<close> answers every failure of
  \<open>ListDirectory\<close> with the empty path and no error: here the directory exists and
  holds \<open>abc.img\<close>, the listing is refused with "permission denied", and the lookup
  reports a cache miss.
\<close>

theorem list_failure_swallowed:
  "getBMCCachePath list_denied ''abc''
     = (list_denied\<lparr>trace := [ListDirectory ''/tmp/tpi-cache'']\<rparr>, Inr [])"
  by (simp add: getBMCCachePath_def Client_ListDirectory_def call_def list_denied_def
      fresh_def bmcCacheDir_def)

subsection \<open>Power and USB\<close>

lemma reconcilePower_calls:
  "new_calls w (fst (reconcilePower w node desired)) =
     PowerStatus # (if fault w PowerStatus = None \<and> map_index (power w) node \<noteq> desired
        then [if desired then PowerOn node else PowerOff node] else [])"
  by (auto simp: reconcilePower_def Client_PowerStatus_def Client_PowerOn_def
      Client_PowerOff_def call_def Let_def new_calls_def split: option.splits)

lemma setUsbMode_calls:
  "new_calls w (fst (setUsbMode w node mode bmc)) =
     (if mode = ''host'' then [UsbSetHost node bmc]
      else if mode = ''device'' then [UsbSetDevice node bmc]
      else if mode = ''flash'' then [UsbSetFlash node bmc]
      else [])"
  by (auto simp: setUsbMode_def Client_UsbSetHost_def Client_UsbSetDevice_def
      Client_UsbSetFlash_def call_def new_calls_def split: option.splits)

text \<open>
  C3, as amended. \<open>Create\<close> and \<open>Update\<close> of the power resource first read the
  power status and then issue no state-changing command when the status could not be
  read or the node already is in the desired state, and exactly one (\<open>PowerOn\<close> or
  \<open>PowerOff\<close>) when it differs. \<open>Create\<close> and \<open>Update\<close> of the USB resource never
  read the USB status: for each of the modes host, device and flash they issue exactly
  one set-mode command, whatever the current state is.
\<close>

theorem device_state_commands:
  "new_calls w (fst (NodePowerResource_Create L w plan)) = PowerStatus # power_commands w plan
   \<and> new_calls w (fst (NodePowerResource_Update w plan)) = PowerStatus # power_commands w plan
   \<and> new_calls w (fst (NodeUsbResource_Create L w uplan)) = usb_command uplan
   \<and> new_calls w (fst (NodeUsbResource_Update w uplan)) = usb_command uplan"
proof -
  have 1: "fst (NodePowerResource_Create L w plan)
      = fst (reconcilePower w (pw_Node plan) (pw_PowerOn plan))"
    by (simp add: NodePowerResource_Create_def split: prod.splits option.splits)
  have 2: "fst (NodePowerResource_Update w plan)
      = fst (reconcilePower w (pw_Node plan) (pw_PowerOn plan))"
    by (simp add: NodePowerResource_Update_def split: prod.splits option.splits)
  have 3: "fst (NodeUsbResource_Create L w uplan)
      = fst (setUsbMode w (usb_Node uplan) (usb_Mode uplan) (usb_BMC uplan))"
    by (simp add: NodeUsbResource_Create_def split: prod.splits option.splits)
  have 4: "fst (NodeUsbResource_Update w uplan)
      = fst (setUsbMode w (usb_Node uplan) (usb_Mode uplan) (usb_BMC uplan))"
    by (simp add: NodeUsbResource_Update_def split: prod.splits option.splits)
  show ?thesis
    unfolding 1 2 3 4 reconcilePower_calls setUsbMode_calls
    by (simp add: power_commands_def usb_command_def)
qed

text \<open>
  C3 as stated fails for the USB resource: the BMC already has node 1 in host mode on
  the USB-A port, the plan asks for exactly that, and \<open>Create\<close> still issues one
  state-changing command and reads nothing.
\<close>

theorem usb_create_not_idempotent:
  "mapModeToLower (Mode (usb (fresh 200))) = usb_Mode usb_plan
   \<and> (Route (usb (fresh 200)) = ''BMC'') = usb_BMC usb_plan
   \<and> UsbNode (usb (fresh 200)) = usb_Node usb_plan
   \<and> filter is_state_change
        (new_calls (fresh 200) (fst (NodeUsbResource_Create L0 (fresh 200) usb_plan)))
       = [UsbSetHost 1 False]
   \<and> filter is_state_read
        (new_calls (fresh 200) (fst (NodeUsbResource_Create L0 (fresh 200) usb_plan))) = []"
  by (simp add: NodeUsbResource_Create_def setUsbMode_def Client_UsbSetHost_def call_def
      new_calls_def fresh_def usb_plan_def mapModeToLower_def)

subsection \<open>The status check of the download\<close>

lemma verifyStep_err: "verifyStep L w opts fp = (w', Inl e) \<Longrightarrow> e \<noteq> StatusErr c"
  by (auto simp: verifyStep_def split: prod.splits sum.splits if_splits)

lemma finishDownload_err: "finishDownload L w opts dp c = (w', Inl e) \<Longrightarrow> e \<noteq> StatusErr k"
  by (auto simp: finishDownload_def decompressStep_def
      split: prod.splits sum.splits if_splits dest: verifyStep_err)

lemma saveDownload_err:
  "saveDownload L w opts url destDir resp = (w', Inl e) \<Longrightarrow> e \<noteq> StatusErr k"
  by (auto simp: saveDownload_def Let_def split: prod.splits option.splits
      dest: finishDownload_err)

lemma saveDownload_creates:
  assumes "saveDownload L w opts url destDir resp = (w', r)"
  shows "\<exists>ys. trace w' = trace w @ Create (Join L [destDir, Base L url]) # ys"
proof -
  let ?dp = "Join L [destDir, Base L url]"
  obtain w1 r1 where s1: "os_Create w ?dp = (w1, r1)" by fastforce
  have t1: "trace w1 = trace w @ [Create ?dp]"
    using s1 by (auto simp: os_Create_def call_def split: option.splits)
  have "only (\<lambda>x. True) w1 w'"
    using assms s1 unfolding saveDownload_def Let_def
    by (auto split: prod.splits option.splits
        dest!: write_body_only [where P = "\<lambda>x. True"] finishDownload_only
        elim!: only_trans elim: only_mono)
  with t1 show ?thesis by (auto simp: only_def)
qed

lemma DownloadImage_not_200:
  assumes "fault w MkdirTemp = None" and "fault w (HttpNewRequest url) = None"
    and "fault w (HttpDo url) = None" and "StatusCode (http w url) \<noteq> 200"
  shows "snd (DownloadImage L w url opts) = Inl (StatusErr (StatusCode (http w url)))"
    and "lfiles (fst (DownloadImage L w url opts)) = lfiles w"
    and "filter writes_file (new_calls w (fst (DownloadImage L w url opts))) = []"
  using assms
  by (auto simp: DownloadImage_def destDirStep_def os_MkdirTemp_def http_NewRequest_def
      http_Do_def call_def StatusOK_def new_calls_def Let_def split: option.splits)

lemma DownloadImage_200:
  assumes "fault w MkdirTemp = None" and "fault w (HttpNewRequest url) = None"
    and "fault w (HttpDo url) = None" and "StatusCode (http w url) = 200"
  shows "snd (DownloadImage L w url opts) \<noteq> Inl (StatusErr c)"
    and "Create (download_path L w url opts)
          \<in> set (new_calls w (fst (DownloadImage L w url opts)))"
proof -
  define os where
    "os = (case opts of None \<Rightarrow> \<lparr>ExpectedSHA256 = [], DestDir = []\<rparr> | Some x \<Rightarrow> x)"
  define w3 where
    "w3 = fst (http_Do (fst (http_NewRequest (fst (destDirStep w os)) url)) url)"
  have run: "DownloadImage L w url opts = saveDownload L w3 os url (dest_dir w opts) (http w url)"
    unfolding w3_def os_def using assms
    by (auto simp: DownloadImage_def destDirStep_def os_MkdirTemp_def http_NewRequest_def
        http_Do_def call_def StatusOK_def Let_def dest_dir_def split: option.splits)
  have w3: "\<exists>xs. trace w3 = trace w @ xs"
    unfolding w3_def
    by (auto simp: destDirStep_def os_MkdirTemp_def http_NewRequest_def
        http_Do_def call_def split: option.splits)
  obtain w' r where s: "saveDownload L w3 os url (dest_dir w opts) (http w url) = (w', r)"
    by fastforce
  from saveDownload_creates [OF s] w3 run s
  show "Create (download_path L w url opts)
          \<in> set (new_calls w (fst (DownloadImage L w url opts)))"
    by (auto simp: new_calls_def download_path_def)
  from saveDownload_err [of L w3 os url "dest_dir w opts" "http w url" w'] run s
  show "snd (DownloadImage L w url opts) \<noteq> Inl (StatusErr c)"
    by auto
qed

text \<open>
  C9, as amended. When the request is created and sent without a transport failure,
  \<open>DownloadImage\<close> returns the status error exactly when the status code is not 200:
  for any other code, 2xx or not, it returns the error before any local file is
  created or written; for 200 it goes on to create the download file and never
  returns the status error.
\<close>

theorem download_status_check:
  assumes "fault w MkdirTemp = None" and "fault w (HttpNewRequest url) = None"
    and "fault w (HttpDo url) = None"
  shows "(StatusCode (http w url) \<noteq> 200 \<longrightarrow>
            snd (DownloadImage L w url opts) = Inl (StatusErr (StatusCode (http w url)))
            \<and> lfiles (fst (DownloadImage L w url opts)) = lfiles w
            \<and> filter writes_file (new_calls w (fst (DownloadImage L w url opts))) = [])
       \<and> (StatusCode (http w url) = 200 \<longrightarrow>
            (\<forall>c. snd (DownloadImage L w url opts) \<noteq> Inl (StatusErr c))
            \<and> Create (download_path L w url opts)
                \<in> set (new_calls w (fst (DownloadImage L w url opts))))"
  using DownloadImage_not_200 [OF assms] DownloadImage_200 [OF assms] by blast

theorem download_status_check_witness:
  "fault (fresh 404) MkdirTemp = None \<and> fault (fresh 404) (HttpNewRequest url0) = None
   \<and> fault (fresh 404) (HttpDo url0) = None
   \<and> StatusCode (http (fresh 404) url0) \<noteq> 200
   \<and> snd (DownloadImage L0 (fresh 404) url0 None) = Inl (StatusErr 404)
   \<and> lfiles (fst (DownloadImage L0 (fresh 404) url0 None)) = lfiles (fresh 404)
   \<and> filter writes_file (new_calls (fresh 404) (fst (DownloadImage L0 (fresh 404) url0 None))) = []
   \<and> fault (fresh 200) MkdirTemp = None \<and> fault (fresh 200) (HttpNewRequest url0) = None
   \<and> fault (fresh 200) (HttpDo url0) = None
   \<and> StatusCode (http (fresh 200) url0) = 200
   \<and> snd (DownloadImage L0 (fresh 200) url0 None) \<noteq> Inl (StatusErr 200)
   \<and> Create ''/tmp/dl/ubuntu.img.xz''
        \<in> set (new_calls (fresh 200) (fst (DownloadImage L0 (fresh 200) url0 None)))"
  using download_status_check [of "fresh 404" url0 L0 None]
    download_status_check [of "fresh 200" url0 L0 None]
  by (simp add: fresh_def download_path_def dest_dir_def L0_def base_name_def url0_def)

text \<open>
  C9 as stated fails: status 204 is a 2xx status, and \<open>DownloadImage\<close> returns the
  status error for it.
\<close>

theorem status_204_rejected:
  "snd (DownloadImage L0 (fresh 204) url0 None) = Inl (StatusErr 204)"
  by (simp add: DownloadImage_def destDirStep_def os_MkdirTemp_def http_NewRequest_def
      http_Do_def call_def fresh_def StatusOK_def)

subsection \<open>The orchestration\<close>

lemma lookupCached_only: "lookupCached L c w plan = (w', p) \<Longrightarrow> only lookup_prim w w'"
  unfolding lookupCached_def
  by (auto split: if_splits prod.splits sum.splits dest!: GetCachedImagePath_only)

lemma cleanup_only: "only flash_prim w (cleanup w r)"
  by (simp add: cleanup_def os_Remove_only)

lemma cleanup_trace:
  "trace (cleanup w r) = trace w @
     (if tempFile r \<noteq> [] \<and> tempFile r \<noteq> imagePath r then [Remove (tempFile r)] else [])"
  by (simp add: cleanup_def os_Remove_def call_def split: option.splits)

lemma dispatchFlash_only: "dispatchFlash w plan r = (w', res) \<Longrightarrow> only flash_prim w w'"
  unfolding dispatchFlash_def Let_def
  by (auto split: if_splits prod.splits option.splits
      dest!: Client_FlashNode_only [where P = flash_prim, simplified]
        Client_FlashNodeLocal_only [where P = flash_prim, simplified]
      elim!: only_trans intro!: cleanup_only)

lemma dispatchFlash_result:
  "snd (dispatchFlash w plan r) =
     (if length (sha256 r) < 16 then Inl (Panic ''slice bounds out of range'')
      else case fault w (flash_call plan r) of
             None \<Rightarrow> Inr \<lparr>res_SHA256 = sha256 r\<rparr>
           | Some e \<Rightarrow> Inl (Wrapped ''flash operation failed'' (IOErr e)))"
  by (auto simp: dispatchFlash_def flash_call_def Let_def Client_FlashNode_def
      Client_FlashNodeLocal_def call_def split: option.splits)

lemma dispatchFlash_calls:
  "new_calls w (fst (dispatchFlash w plan r)) =
     (if length (sha256 r) < 16 then [] else [flash_call plan r])
     @ (if tempFile r \<noteq> [] \<and> tempFile r \<noteq> imagePath r then [Remove (tempFile r)] else [])"
  by (auto simp: dispatchFlash_def flash_call_def Let_def Client_FlashNode_def
      Client_FlashNodeLocal_def call_def new_calls_def cleanup_trace split: option.splits)

text \<open>A download with an expected hash is the download without one, then the comparison.\<close>

lemma verifyStep_mismatch:
  assumes "verifyStep L w \<lparr>ExpectedSHA256 = [], DestDir = d\<rparr> fp = (w', Inr res)"
    and "h \<noteq> []" and "SHA256 res \<noteq> h"
  shows "verifyStep L w \<lparr>ExpectedSHA256 = h, DestDir = d\<rparr> fp
           = (os_Remove w' (Path res), Inl (SHAMismatch h (SHA256 res)))"
  using assms by (auto simp: verifyStep_def split: prod.splits sum.splits)

lemma finishDownload_mismatch:
  assumes "finishDownload L w \<lparr>ExpectedSHA256 = [], DestDir = d\<rparr> dp c = (w', Inr res)"
    and "h \<noteq> []" and "SHA256 res \<noteq> h"
  shows "finishDownload L w \<lparr>ExpectedSHA256 = h, DestDir = d\<rparr> dp c
           = (os_Remove w' (Path res), Inl (SHAMismatch h (SHA256 res)))"
  using assms
  by (auto simp: finishDownload_def split: prod.splits sum.splits dest: verifyStep_mismatch)

lemma saveDownload_mismatch:
  assumes "saveDownload L w \<lparr>ExpectedSHA256 = [], DestDir = d\<rparr> url dir resp = (w', Inr res)"
    and "h \<noteq> []" and "SHA256 res \<noteq> h"
  shows "saveDownload L w \<lparr>ExpectedSHA256 = h, DestDir = d\<rparr> url dir resp
           = (os_Remove w' (Path res), Inl (SHAMismatch h (SHA256 res)))"
  using assms
  by (auto simp: saveDownload_def Let_def split: prod.splits option.splits
      dest: finishDownload_mismatch)

lemma DownloadImage_mismatch:
  assumes "DownloadImage L w url (Some \<lparr>ExpectedSHA256 = [], DestDir = d\<rparr>) = (w', Inr res)"
    and "h \<noteq> []" and "SHA256 res \<noteq> h"
  shows "DownloadImage L w url (Some \<lparr>ExpectedSHA256 = h, DestDir = d\<rparr>)
           = (os_Remove w' (Path res), Inl (SHAMismatch h (SHA256 res)))"
proof -
  have same: "destDirStep w \<lparr>ExpectedSHA256 = h, DestDir = d\<rparr>
      = destDirStep w \<lparr>ExpectedSHA256 = [], DestDir = d\<rparr>"
    by (simp add: destDirStep_def)
  obtain w1 r1 where s1: "destDirStep w \<lparr>ExpectedSHA256 = [], DestDir = d\<rparr> = (w1, r1)"
    by fastforce
  obtain w2 r2 where s2: "http_NewRequest w1 url = (w2, r2)" by fastforce
  obtain w3 r3 where s3: "http_Do w2 url = (w3, r3)" by fastforce
  from assms(1) s1 s2 s3 obtain dir resp where
    r: "r1 = Inr dir" "r2 = None" "r3 = Inr resp" "StatusCode resp = StatusOK"
    and sd: "saveDownload L w3 \<lparr>ExpectedSHA256 = [], DestDir = d\<rparr> url dir resp = (w', Inr res)"
    by (auto simp: DownloadImage_def split: sum.splits option.splits if_splits)
  from saveDownload_mismatch [OF sd assms(2,3)] s1 s2 s3 r same
  show ?thesis by (simp add: DownloadImage_def)
qed

lemmas fixture_defs = fresh_def L0_def cache0_def url0_def base_name_def toy_sha_def node_digit_def
  flash_plan_def sha_img_def

lemmas flash_defs = executeFlash_def resolveURL_def resolveLocal_def lookupCached_def
  downloadAndCache_def localSHA256_def dispatchFlash_def cleanup_def url_given_def sha_given_def
  expectedSHA256_def IsNull_def ValueString_def flash_call_def

lemmas cache_defs = NewImageCache_def GetCachedImagePath_def CacheImage_def
  getLocalCachePath_def getBMCCachePath_def cacheLocally_def cacheToBMC_def bmcCacheDir_def
  listing_def in_dir_def dir_prefix_def run_command_def dirname_def store_def

lemmas download_defs = DownloadImage_def destDirStep_def saveDownload_def finishDownload_def
  decompressStep_def verifyStep_def decompress_def outputPath_def decompressXZ_def
  decompressGzip_def decompressZip_def calculateSHA256_def CalculateFileSHA256_def
  detectCompression_def HasSuffix_def TrimSuffix_def StatusOK_def

lemma executeFlash_hit:
  assumes "url_given plan" and "sha_given plan"
    and "NewImageCache L w = (w1, Inr cache)"
    and "GetCachedImagePath L cache w1 (expectedSHA256 plan) (ValueString (fl_Cache plan))
           = (w2, Inr p)"
    and "p \<noteq> []"
  shows "executeFlash L w plan
           = dispatchFlash w2 plan \<lparr>imagePath = p, sha256 = expectedSHA256 plan, tempFile = []\<rparr>"
  using assms by (simp add: executeFlash_def resolveURL_def lookupCached_def)

text \<open>
  C6. A provisioning run whose source is a URL with an expected hash, and whose cache
  lookup for that hash at the configured location returns a present path, makes no
  HTTP request at all; every result it reports carries the expected hash, and it does
  report one when the hash has at least the sixteen characters the log line slices and
  the flash call succeeds.
\<close>

theorem cache_hit_skips_download:
  assumes "url_given plan" and "sha_given plan"
    and init: "NewImageCache L w = (w1, Inr cache)"
    and look: "GetCachedImagePath L cache w1 (expectedSHA256 plan) (ValueString (fl_Cache plan))
                = (w2, Inr p)"
    and "p \<noteq> []"
  shows "filter is_download (new_calls w (fst (executeFlash L w plan))) = []
       \<and> (\<forall>r. snd (executeFlash L w plan) = Inr r \<longrightarrow> res_SHA256 r = expectedSHA256 plan)
       \<and> (16 \<le> length (expectedSHA256 plan)
            \<and> fault w (flash_call plan
                 \<lparr>imagePath = p, sha256 = expectedSHA256 plan, tempFile = []\<rparr>) = None
          \<longrightarrow> snd (executeFlash L w plan) = Inr \<lparr>res_SHA256 = expectedSHA256 plan\<rparr>)"
proof -
  let ?r = "\<lparr>imagePath = p, sha256 = expectedSHA256 plan, tempFile = []\<rparr>"
  let ?Q = "\<lambda>x. init_prim x \<or> lookup_prim x \<or> flash_prim x"
  have run: "executeFlash L w plan = dispatchFlash w2 plan ?r"
    using assms by (rule executeFlash_hit)
  have o1: "only ?Q w w1" using NewImageCache_only [OF init] by (rule only_mono) simp
  have o2: "only ?Q w1 w2" using GetCachedImagePath_only [OF look] by (rule only_mono) simp
  have o3: "only ?Q w2 (fst (dispatchFlash w2 plan ?r))"
    using dispatchFlash_only [OF surjective_pairing] by (rule only_mono) simp
  have o: "only ?Q w (fst (executeFlash L w plan))"
    unfolding run using o1 o2 o3 by (blast intro: only_trans)
  have "\<And>x. ?Q x \<Longrightarrow> \<not> is_download x"
    subgoal for x by (cases x) auto
    done
  with o have 1: "filter is_download (new_calls w (fst (executeFlash L w plan))) = []"
    by (rule only_filter)
  have f: "fault w2 = fault w"
    using only_static [OF o1] only_static [OF o2] by simp
  show ?thesis
    using 1 unfolding run dispatchFlash_result f
    by (auto split: option.splits if_splits)
qed

theorem cache_hit_skips_download_witness:
  "url_given hit_plan \<and> sha_given hit_plan
   \<and> snd (NewImageCache L0 cached_local) = Inr cache0
   \<and> snd (GetCachedImagePath L0 cache0 (fst (NewImageCache L0 cached_local))
            (expectedSHA256 hit_plan) (ValueString (fl_Cache hit_plan)))
       = Inr ''/home/u/.cache/terraform-provider-turingpi/0123456789abcdefIMG.img''
   \<and> filter is_download (new_calls cached_local (fst (executeFlash L0 cached_local hit_plan))) = []
   \<and> snd (executeFlash L0 cached_local hit_plan) = Inr \<lparr>res_SHA256 = sha_img\<rparr>"
  using cache_hit_skips_download [of hit_plan L0 cached_local
      "fst (NewImageCache L0 cached_local)" cache0
      "fst (GetCachedImagePath L0 cache0 (fst (NewImageCache L0 cached_local))
            (expectedSHA256 hit_plan) (ValueString (fl_Cache hit_plan)))"
      "''/home/u/.cache/terraform-provider-turingpi/0123456789abcdefIMG.img''"]
  by (simp add: flash_defs cache_defs env_defs fixture_defs cached_local_def hit_plan_def
      loc_defs new_calls_def Let_def)

lemma download_path_frame:
  "tmp_seq w' = tmp_seq w \<Longrightarrow> tmp_name w' = tmp_name w \<Longrightarrow> http w' = http w \<Longrightarrow>
     download_path L w' url (Some \<lparr>ExpectedSHA256 = h, DestDir = []\<rparr>) = download_path L w url None
     \<and> output_path L w' url (Some \<lparr>ExpectedSHA256 = h, DestDir = []\<rparr>) = output_path L w url None"
  by (simp add: download_path_def output_path_def dest_dir_def)

lemma os_Remove_gone: "fault w (Remove p) = None \<Longrightarrow> lfiles (os_Remove w p) p = None"
  by (simp add: os_Remove_def call_def)

text \<open>
  C5. The expected hash is given, the cache has no entry for it, and the download,
  decompressed, hashes to something else. Then \<open>DownloadImage\<close> removes the
  decompressed file (its last call is \<open>os.Remove\<close> of that path, and the file is gone
  unless the removal itself fails) and returns the mismatch error; \<open>executeFlash\<close>
  fails with that error, wrapped. The run has copied and uploaded nothing and executed
  no command on the BMC; the BMC's files and directories are as before, and so is every
  local file other than the download and its decompressed output.
\<close>

theorem wrong_hash_stores_nothing:
  assumes "url_given plan" and "sha_given plan"
    and init: "NewImageCache L w = (w1, Inr cache)"
    and look: "lookupCached L cache w1 plan = (w2, [])"
    and dl: "DownloadImage L w2 (ValueString (fl_ImageURL plan))
               (Some \<lparr>ExpectedSHA256 = [], DestDir = []\<rparr>) = (w3, Inr res)"
    and neq: "SHA256 res \<noteq> expectedSHA256 plan"
  shows "DownloadImage L w2 (ValueString (fl_ImageURL plan))
           (Some \<lparr>ExpectedSHA256 = expectedSHA256 plan, DestDir = []\<rparr>)
           = (os_Remove w3 (Path res), Inl (SHAMismatch (expectedSHA256 plan) (SHA256 res)))
       \<and> executeFlash L w plan
           = (os_Remove w3 (Path res),
              Inl (Wrapped ''failed to download image''
                     (SHAMismatch (expectedSHA256 plan) (SHA256 res))))
       \<and> (fault w (Remove (Path res)) = None \<longrightarrow> lfiles (os_Remove w3 (Path res)) (Path res) = None)
       \<and> filter is_transfer (new_calls w (os_Remove w3 (Path res))) = []
       \<and> filter remote_write (new_calls w (os_Remove w3 (Path res))) = []
       \<and> rfiles (os_Remove w3 (Path res)) = rfiles w
       \<and> rdirs (os_Remove w3 (Path res)) = rdirs w
       \<and> (\<forall>q. q \<noteq> download_path L w (ValueString (fl_ImageURL plan)) None
              \<and> q \<noteq> output_path L w (ValueString (fl_ImageURL plan)) None
              \<longrightarrow> lfiles (os_Remove w3 (Path res)) q = lfiles w q)"
proof -
  let ?url = "ValueString (fl_ImageURL plan)"
  let ?h = "expectedSHA256 plan"
  let ?w' = "os_Remove w3 (Path res)"
  let ?dp = "download_path L w ?url None"
  let ?out = "output_path L w ?url None"
  let ?Q = "\<lambda>x. init_prim x \<or> lookup_prim x \<or> fetch_on ?dp ?out x"
  have h: "?h \<noteq> []"
    using assms(2) by (simp add: expectedSHA256_def sha_given_def)
  have ver: "DownloadImage L w2 ?url (Some \<lparr>ExpectedSHA256 = ?h, DestDir = []\<rparr>)
      = (?w', Inl (SHAMismatch ?h (SHA256 res)))"
    using dl h neq by (rule DownloadImage_mismatch)
  have run: "executeFlash L w plan
      = (?w', Inl (Wrapped ''failed to download image'' (SHAMismatch ?h (SHA256 res))))"
    using assms(1) init look ver
    by (simp add: executeFlash_def resolveURL_def downloadAndCache_def)
  have o1: "only init_prim w w1" using init by (rule NewImageCache_only)
  have o2: "only lookup_prim w1 w2" using look by (rule lookupCached_only)
  have s2: "tmp_seq w2 = tmp_seq w" "tmp_name w2 = tmp_name w" "http w2 = http w"
    "fault w2 = fault w"
    using only_tmp_seq [OF o1] only_tmp_seq [OF o2] only_static [OF o1] only_static [OF o2]
    by simp_all
  have o3: "only (fetch_on ?dp ?out) w2 ?w'"
    using DownloadImage_only [OF ver] download_path_frame [OF s2(1-3), of L ?url ?h]
    by simp
  have o: "only ?Q w ?w'"
    using only_mono [OF o1, of ?Q] only_mono [OF o2, of ?Q] only_mono [OF o3, of ?Q]
    by (blast intro: only_trans)
  have nt: "\<And>x. ?Q x \<Longrightarrow> \<not> is_transfer x"
    subgoal for x by (cases x) auto
    done
  have nr: "\<And>x. ?Q x \<Longrightarrow> \<not> remote_write x"
    subgoal for x by (cases x) auto
    done
  have lf: "\<And>q x. q \<noteq> ?dp \<Longrightarrow> q \<noteq> ?out \<Longrightarrow> ?Q x \<Longrightarrow> \<not> touches x q"
    subgoal for q x by (cases x) auto
    done
  have f3: "fault w3 = fault w"
    using only_static [OF DownloadImage_only [OF dl]] s2(4) by simp
  show ?thesis
    using ver run only_filter [OF o nt] only_filter [OF o nr] only_remote [OF o nr]
      only_lfiles [OF o lf] os_Remove_gone [of w3 "Path res"] f3
    by simp
qed

theorem wrong_hash_stores_nothing_witness:
  "url_given wrong_plan \<and> sha_given wrong_plan
   \<and> snd (NewImageCache L0 (fresh 200)) = Inr cache0
   \<and> snd (lookupCached L0 cache0 (fst (NewImageCache L0 (fresh 200))) wrong_plan) = []
   \<and> snd (DownloadImage L0
            (fst (lookupCached L0 cache0 (fst (NewImageCache L0 (fresh 200))) wrong_plan))
            url0 (Some \<lparr>ExpectedSHA256 = [], DestDir = []\<rparr>))
       = Inr \<lparr>Path = ''/tmp/dl/ubuntu.img'', SHA256 = sha_img\<rparr>
   \<and> sha_img \<noteq> expectedSHA256 wrong_plan
   \<and> snd (executeFlash L0 (fresh 200) wrong_plan)
       = Inl (Wrapped ''failed to download image''
                (SHAMismatch ''ffffffffffffffffffff'' sha_img))
   \<and> lfiles (fst (executeFlash L0 (fresh 200) wrong_plan)) ''/tmp/dl/ubuntu.img'' = None
   \<and> filter is_transfer (new_calls (fresh 200) (fst (executeFlash L0 (fresh 200) wrong_plan))) = []
   \<and> rfiles (fst (executeFlash L0 (fresh 200) wrong_plan)) = []
   \<and> lfiles (fst (executeFlash L0 (fresh 200) wrong_plan))
        ''/home/u/.cache/terraform-provider-turingpi/ffffffffffffffffffff.img'' = None"
  using wrong_hash_stores_nothing [of wrong_plan L0 "fresh 200"
      "fst (NewImageCache L0 (fresh 200))" cache0
      "fst (lookupCached L0 cache0 (fst (NewImageCache L0 (fresh 200))) wrong_plan)"
      "fst (DownloadImage L0
            (fst (lookupCached L0 cache0 (fst (NewImageCache L0 (fresh 200))) wrong_plan))
            url0 (Some \<lparr>ExpectedSHA256 = [], DestDir = []\<rparr>))"
      "\<lparr>Path = ''/tmp/dl/ubuntu.img'', SHA256 = sha_img\<rparr>"]
  by (simp add: flash_defs cache_defs download_defs env_defs fixture_defs wrong_plan_def
      loc_defs new_calls_def Let_def)

lemma localSHA256_only: "localSHA256 L w plan = (w', r) \<Longrightarrow> only (\<lambda>x. \<not> is_flash x) w w'"
  unfolding localSHA256_def CalculateFileSHA256_def
  by (auto split: if_splits prod.splits sum.splits
      dest!: calculateSHA256_only [where P = "\<lambda>x. \<not> is_flash x"])

lemma not_flash:
  "init_prim x \<Longrightarrow> \<not> is_flash x" "lookup_prim x \<Longrightarrow> \<not> is_flash x"
  "fetch_on a b x \<Longrightarrow> \<not> is_flash x" "store_prim x \<Longrightarrow> \<not> is_flash x"
  by (cases x; simp)+

lemma dispatch_after:
  assumes o: "only (\<lambda>x. \<not> is_flash x) w w4" and len: "16 \<le> length (sha256 r)"
  shows "filter is_flash (new_calls w (fst (dispatchFlash w4 plan r))) = [flash_call plan r]
       \<and> snd (dispatchFlash w4 plan r) = flash_outcome w plan r"
proof -
  have f: "fault w4 = fault w" using only_static [OF o] by simp
  have fc: "is_flash (flash_call plan r)" by (simp add: flash_call_def)
  have "new_calls w (fst (dispatchFlash w4 plan r))
      = new_calls w w4 @ new_calls w4 (fst (dispatchFlash w4 plan r))"
    using o dispatchFlash_only [OF surjective_pairing] by (rule new_calls_trans)
  moreover have "filter is_flash (new_calls w w4) = []"
    using o by (rule only_filter) simp
  ultimately show ?thesis
    using len fc by (simp add: dispatchFlash_calls dispatchFlash_result f flash_outcome_def)
qed

text \<open>
  What the code does with the result of \<open>CacheImage\<close>: after a download the resolved
  record is the same whether the store succeeded or failed, and for a local image a
  failed store leaves the given path in place; either way the run goes on to exactly
  one flash call and returns what that call returns.
\<close>

lemma cache_store_error_absorbed:
  "(url_given plan \<and> NewImageCache L w = (w1, Inr cache)
      \<and> lookupCached L cache w1 plan = (w2, [])
      \<and> DownloadImage L w2 (ValueString (fl_ImageURL plan))
           (Some \<lparr>ExpectedSHA256 = expectedSHA256 plan, DestDir = []\<rparr>) = (w3, Inr res)
      \<and> ValueString (fl_Cache plan) \<noteq> CacheLocationNone
      \<and> CacheImage L cache w3 (Path res) (SHA256 res) (ValueString (fl_Cache plan)) = (w4, rc)
      \<and> 16 \<le> length (SHA256 res)
    \<longrightarrow> executeFlash L w plan = dispatchFlash w4 plan (url_resolved res)
        \<and> filter is_flash (new_calls w (fst (executeFlash L w plan)))
            = [flash_call plan (url_resolved res)]
        \<and> snd (executeFlash L w plan) = flash_outcome w plan (url_resolved res))
   \<and> (\<not> url_given plan \<and> NewImageCache L w = (w1, Inr cache)
      \<and> localSHA256 L w1 plan = (w2, Inr sha)
      \<and> ValueString (fl_Cache plan) \<noteq> CacheLocationNone
      \<and> CacheImage L cache w2 (ValueString (fl_ImagePath plan)) sha (ValueString (fl_Cache plan))
           = (w3, Inl err)
      \<and> 16 \<le> length sha
    \<longrightarrow> executeFlash L w plan = dispatchFlash w3 plan (local_resolved plan sha)
        \<and> filter is_flash (new_calls w (fst (executeFlash L w plan)))
            = [flash_call plan (local_resolved plan sha)]
        \<and> snd (executeFlash L w plan) = flash_outcome w plan (local_resolved plan sha))"
proof (intro conjI impI; elim conjE)
  let ?N = "\<lambda>x. \<not> is_flash x"
  assume a: "url_given plan" "NewImageCache L w = (w1, Inr cache)"
    "lookupCached L cache w1 plan = (w2, [])"
    "DownloadImage L w2 (ValueString (fl_ImageURL plan))
       (Some \<lparr>ExpectedSHA256 = expectedSHA256 plan, DestDir = []\<rparr>) = (w3, Inr res)"
    "ValueString (fl_Cache plan) \<noteq> CacheLocationNone"
    "CacheImage L cache w3 (Path res) (SHA256 res) (ValueString (fl_Cache plan)) = (w4, rc)"
    "16 \<le> length (SHA256 res)"
  have run: "executeFlash L w plan = dispatchFlash w4 plan (url_resolved res)"
    using a by (cases rc)
      (simp_all add: executeFlash_def resolveURL_def downloadAndCache_def url_resolved_def Let_def)
  have "only ?N w w1" using NewImageCache_only [OF a(2)] by (rule only_mono) (rule not_flash)
  moreover have "only ?N w1 w2" using lookupCached_only [OF a(3)] by (rule only_mono) (rule not_flash)
  moreover have "only ?N w2 w3" using DownloadImage_only [OF a(4)] by (rule only_mono) (rule not_flash)
  moreover have "only ?N w3 w4" using CacheImage_only [OF a(6)] by (rule only_mono) (rule not_flash)
  ultimately have o: "only ?N w w4" by (blast intro: only_trans)
  have len: "16 \<le> length (sha256 (url_resolved res))" using a(7) by (simp add: url_resolved_def)
  show "executeFlash L w plan = dispatchFlash w4 plan (url_resolved res)" by (rule run)
  show "filter is_flash (new_calls w (fst (executeFlash L w plan)))
            = [flash_call plan (url_resolved res)]"
    and "snd (executeFlash L w plan) = flash_outcome w plan (url_resolved res)"
    unfolding run using dispatch_after [OF o len] by simp_all
next
  let ?N = "\<lambda>x. \<not> is_flash x"
  assume a: "\<not> url_given plan" "NewImageCache L w = (w1, Inr cache)"
    "localSHA256 L w1 plan = (w2, Inr sha)"
    "ValueString (fl_Cache plan) \<noteq> CacheLocationNone"
    "CacheImage L cache w2 (ValueString (fl_ImagePath plan)) sha (ValueString (fl_Cache plan))
           = (w3, Inl err)"
    "16 \<le> length sha"
  have run: "executeFlash L w plan = dispatchFlash w3 plan (local_resolved plan sha)"
    using a by (simp add: executeFlash_def resolveLocal_def local_resolved_def Let_def)
  have "only ?N w w1" using NewImageCache_only [OF a(2)] by (rule only_mono) (rule not_flash)
  moreover have "only ?N w1 w2" using a(3) by (rule localSHA256_only)
  moreover have "only ?N w2 w3" using CacheImage_only [OF a(5)] by (rule only_mono) (rule not_flash)
  ultimately have o: "only ?N w w3" by (blast intro: only_trans)
  have len: "16 \<le> length (sha256 (local_resolved plan sha))"
    using a(6) by (simp add: local_resolved_def)
  show "executeFlash L w plan = dispatchFlash w3 plan (local_resolved plan sha)" by (rule run)
  show "filter is_flash (new_calls w (fst (executeFlash L w plan)))
            = [flash_call plan (local_resolved plan sha)]"
    and "snd (executeFlash L w plan) = flash_outcome w plan (local_resolved plan sha)"
    unfolding run using dispatch_after [OF o len] by simp_all
qed

text \<open>
  C1. The claim wants the flash to be dispatched on where the resolved image lives. The
  code dispatches on the configured cache location and, after a download, never
  replaces the image path by the cached path. Here a fresh download is stored on the
  BMC under \<open>/tmp/tpi-cache\<close> by one upload, and the flash-from-BMC-path operation
  is then called with the local temporary path of the download. (That the resolved
  path after a download is the download's own path in every run, whatever the cache
  store returned, is the first half of lemma \<open>cache_store_error_absorbed\<close>.)
\<close>

theorem fresh_download_flashes_local_path:
  "filter is_flash (new_calls (fresh 200) (fst (executeFlash L0 (fresh 200) bmc_plan)))
     = [FlashNodeLocal 1 ''/tmp/dl/ubuntu.img'']
   \<and> rfiles (fst (executeFlash L0 (fresh 200) bmc_plan))
     = [(''/tmp/tpi-cache/0123456789abcdefIMG.img'', ''IMG'')]
   \<and> filter is_transfer (new_calls (fresh 200) (fst (executeFlash L0 (fresh 200) bmc_plan)))
     = [UploadFile ''/tmp/dl/ubuntu.img'' ''/tmp/tpi-cache/0123456789abcdefIMG.img'']"
  by (simp add: flash_defs cache_defs download_defs env_defs fixture_defs bmc_plan_def
      loc_defs new_calls_def Let_def)

text \<open>
  C8. The error of \<open>CacheImage\<close> is absorbed as the claim says (lemma
  \<open>cache_store_error_absorbed\<close>), but the outcome of provisioning still depends on
  whether the store succeeded: with the cache location \<open>bmc\<close> the run asks the BMC
  to flash from the cached path when the store succeeded, and from the local path
  \<open>/img\<close>, which is no file of the BMC, when it failed.
\<close>

theorem cache_failure_changes_flash:
  "snd (executeFlash L0 (local_img strict_bmc) local_bmc_plan) = Inr \<lparr>res_SHA256 = sha_img\<rparr>
   \<and> filter is_flash
        (new_calls (local_img strict_bmc) (fst (executeFlash L0 (local_img strict_bmc) local_bmc_plan)))
       = [FlashNodeLocal 1 ''/tmp/tpi-cache/0123456789abcdefIMG.img'']
   \<and> snd (executeFlash L0 (local_img ssh_down) local_bmc_plan)
       = Inl (Wrapped ''flash operation failed'' (IOErr ''no such file on the BMC''))
   \<and> filter is_flash
        (new_calls (local_img ssh_down) (fst (executeFlash L0 (local_img ssh_down) local_bmc_plan)))
       = [FlashNodeLocal 1 ''/img'']"
  by (simp add: flash_defs cache_defs download_defs env_defs fixture_defs local_bmc_plan_def
      local_img_def strict_bmc_def ssh_down_def loc_defs new_calls_def Let_def)

subsection \<open>The two cache backends\<close>

lemma has_name_listing:
  assumes "CHR ''/'' \<notin> set n"
  shows "has_name (listing d fs) n \<longleftrightarrow> map_of fs (d @ ''/'' @ n) \<noteq> None"
proof (induction fs)
  case Nil
  show ?case by (simp add: listing_def)
next
  case (Cons a fs)
  obtain q c where a: "a = (q, c)" by (cases a)
  have eq: "(in_dir d q \<and> drop (length (dir_prefix d)) q = n) \<longleftrightarrow> q = d @ ''/'' @ n"
    using assms
    by (auto simp: in_dir_def dir_prefix_def)
      (metis append_take_drop_id append.assoc append_Cons append_Nil)
  show ?case
    using Cons eq by (auto simp: a listing_def)
qed


text \<open>The local backend.\<close>

lemma getLocalCachePath_present:
  assumes "getLocalCachePath L c w h = (w', Inr p)" and "p \<noteq> []"
  shows "p = Join L [localDir c, h @ ''.img''] \<and> fault w (Stat p) = None \<and> lfiles w p \<noteq> None"
  using assms
  by (auto simp: getLocalCachePath_def os_Stat_def call_def Let_def
      split: option.splits if_splits)

lemma getLocalCachePath_hit:
  assumes "fault w (Stat (Join L [localDir c, h @ ''.img''])) = None"
    and "lfiles w (Join L [localDir c, h @ ''.img'']) = Some c0"
  shows "snd (getLocalCachePath L c w h) = Inr (Join L [localDir c, h @ ''.img''])"
    and "lfiles (fst (getLocalCachePath L c w h)) = lfiles w"
  using assms by (simp_all add: getLocalCachePath_def os_Stat_def call_def Let_def)

lemma cacheLocally_hit:
  assumes "fault w (Stat (Join L [localDir c, h @ ''.img''])) = None"
    and "lfiles w (Join L [localDir c, h @ ''.img'']) = Some c0"
  shows "cacheLocally L c w s h
           = (w\<lparr>trace := trace w @ [Stat (Join L [localDir c, h @ ''.img''])]\<rparr>,
              Inr (Join L [localDir c, h @ ''.img'']))"
  using assms by (simp add: cacheLocally_def os_Stat_def call_def Let_def)

lemma cacheLocally_miss:
  assumes "fault w (Stat (Join L [localDir c, h @ ''.img''])) = None"
    and "lfiles w (Join L [localDir c, h @ ''.img'']) = None"
    and "cacheLocally L c w s h = (w', Inr p)"
  shows "p = Join L [localDir c, h @ ''.img'']"
    and "lfiles w' p = Some (file_content w s)"
    and "new_calls w w' = [Stat p, Open s, Create p, CopyFile s p]"
    and "fault w' = fault w"
  using assms
  by (auto simp: cacheLocally_def os_Stat_def os_Open_def os_Create_def io_Copy_def
      file_content_def call_def Let_def new_calls_def
      split: option.splits if_splits)

text \<open>The BMC backend.\<close>

lemma after_mkdir_simps [simp]:
  "rfiles (after_mkdir w) = rfiles w" "lfiles (after_mkdir w) = lfiles w"
  "fault (after_mkdir w) = fault w" "bmcCacheDir \<in> set (rdirs (after_mkdir w))"
  "trace (after_mkdir w) = trace w @ [ExecuteCommand (''mkdir -p '' @ bmcCacheDir)]"
  by (simp_all add: after_mkdir_def run_command_def)

lemma getBMCCachePath_eval:
  assumes "fault w (ListDirectory bmcCacheDir) = None" and "bmcCacheDir \<in> set (rdirs w)"
    and "CHR ''/'' \<notin> set h"
  shows "getBMCCachePath w h
           = (w\<lparr>trace := trace w @ [ListDirectory bmcCacheDir]\<rparr>,
              Inr (if map_of (rfiles w) (bmcCacheDir @ ''/'' @ h @ ''.img'') \<noteq> None
                   then bmcCacheDir @ ''/'' @ h @ ''.img'' else []))"
  using assms has_name_listing [of "h @ ''.img''" bmcCacheDir "rfiles w"]
  by (simp add: getBMCCachePath_def Client_ListDirectory_def call_def Let_def)

lemma getBMCCachePath_present:
  assumes "getBMCCachePath w h = (w', Inr p)" and "p \<noteq> []"
  shows "p = bmcCacheDir @ ''/'' @ h @ ''.img'' \<and> fault w (ListDirectory bmcCacheDir) = None
       \<and> bmcCacheDir \<in> set (rdirs w)
       \<and> has_name (listing bmcCacheDir (rfiles w)) (h @ ''.img'')"
  using assms
  by (auto simp: getBMCCachePath_def Client_ListDirectory_def call_def Let_def
      split: option.splits if_splits)


lemma cacheToBMC_hit:
  assumes "fault w (ExecuteCommand (''mkdir -p '' @ bmcCacheDir)) = None"
    and "getBMCCachePath w h = (w0, Inr p)" and "p \<noteq> []"
  shows "cacheToBMC w lp h
           = ((after_mkdir w)\<lparr>trace := trace (after_mkdir w) @ [ListDirectory bmcCacheDir]\<rparr>,
              Inr p)"
  using getBMCCachePath_present [OF assms(2,3)] assms(1)
  by (simp add: cacheToBMC_def Client_ExecuteCommand_def call_def Let_def
      getBMCCachePath_def Client_ListDirectory_def after_mkdir_def run_command_def)

lemma cacheToBMC_eval:
  assumes "fault w (ExecuteCommand (''mkdir -p '' @ bmcCacheDir)) = None"
    and "fault w (ListDirectory bmcCacheDir) = None" and "CHR ''/'' \<notin> set h"
  shows "cacheToBMC w lp h =
     (if map_of (rfiles w) (bmcCacheDir @ ''/'' @ h @ ''.img'') \<noteq> None
      then ((after_mkdir w)\<lparr>trace := trace (after_mkdir w) @ [ListDirectory bmcCacheDir]\<rparr>,
            Inr (bmcCacheDir @ ''/'' @ h @ ''.img''))
      else (case Client_UploadFile
                  ((after_mkdir w)\<lparr>trace := trace (after_mkdir w) @ [ListDirectory bmcCacheDir]\<rparr>)
                  lp (bmcCacheDir @ ''/'' @ h @ ''.img'') of
              (w3, Some e) \<Rightarrow> (w3, Inl (Wrapped ''failed to upload to BMC'' e))
            | (w3, None) \<Rightarrow> (w3, Inr (bmcCacheDir @ ''/'' @ h @ ''.img''))))"
proof -
  have 1: "Client_ExecuteCommand w (''mkdir -p '' @ bmcCacheDir) = (after_mkdir w, Inr [])"
    using assms(1) by (simp add: Client_ExecuteCommand_def call_def after_mkdir_def)
  have 2: "getBMCCachePath (after_mkdir w) h
      = ((after_mkdir w)\<lparr>trace := trace (after_mkdir w) @ [ListDirectory bmcCacheDir]\<rparr>,
         Inr (if map_of (rfiles w) (bmcCacheDir @ ''/'' @ h @ ''.img'') \<noteq> None
              then bmcCacheDir @ ''/'' @ h @ ''.img'' else []))"
    using getBMCCachePath_eval [of "after_mkdir w" h] assms(2,3) by simp
  show ?thesis
    using 1 2 by (simp add: cacheToBMC_def Let_def split: prod.splits option.splits)
qed

lemma cacheToBMC_upload:
  assumes "fault w (ExecuteCommand (''mkdir -p '' @ bmcCacheDir)) = None"
    and "fault w (ListDirectory bmcCacheDir) = None" and "CHR ''/'' \<notin> set h"
    and "map_of (rfiles w) (bmcCacheDir @ ''/'' @ h @ ''.img'') = None"
    and "cacheToBMC w lp h = (w', Inr p)"
  shows "p = bmcCacheDir @ ''/'' @ h @ ''.img''"
    and "map_of (rfiles w') p = Some (file_content w lp)"
    and "new_calls w w' = [ExecuteCommand (''mkdir -p '' @ bmcCacheDir),
           ListDirectory bmcCacheDir, UploadFile lp p]"
    and "fault w' = fault w" and "bmcCacheDir \<in> set (rdirs w')"
  using assms(4,5) unfolding cacheToBMC_eval [OF assms(1-3)]
  by (auto simp: Client_UploadFile_def call_def new_calls_def store_def file_content_def
      split: option.splits if_splits)

lemma CacheImage_twice_local:
  assumes st: "fault w (Stat (Join L [localDir c, h @ ''.img''])) = None"
    and put: "cacheLocally L c w lp h = (w1, Inr p1)"
  shows "snd (cacheLocally L c w1 lp h) = Inr p1"
    and "filter is_transfer (new_calls w1 (fst (cacheLocally L c w1 lp h))) = []"
    and "length (filter is_transfer (new_calls w w1)) \<le> 1"
    and "snd (getLocalCachePath L c w1 h) = Inr p1"
    and "lfiles (fst (getLocalCachePath L c w1 h)) p1
          = Some (case lfiles w p1 of Some c0 \<Rightarrow> c0 | None \<Rightarrow> file_content w lp)"
proof -
  let ?d = "Join L [localDir c, h @ ''.img'']"
  have "p1 = ?d \<and> fault w1 (Stat ?d) = None
      \<and> lfiles w1 ?d = Some (case lfiles w ?d of Some c0 \<Rightarrow> c0 | None \<Rightarrow> file_content w lp)
      \<and> length (filter is_transfer (new_calls w w1)) \<le> 1"
  proof (cases "lfiles w ?d")
    case None
    from cacheLocally_miss [OF st None put] st None show ?thesis by simp
  next
    case (Some c0)
    from put cacheLocally_hit [OF st Some, of lp] st Some show ?thesis
      by (auto simp: new_calls_def)
  qed
  then obtain c1 where p: "p1 = ?d" and f: "fault w1 (Stat ?d) = None"
    and l: "lfiles w1 ?d = Some c1"
    and c1: "c1 = (case lfiles w ?d of Some c0 \<Rightarrow> c0 | None \<Rightarrow> file_content w lp)"
    and n: "length (filter is_transfer (new_calls w w1)) \<le> 1"
    by blast
  show "snd (cacheLocally L c w1 lp h) = Inr p1"
    and "filter is_transfer (new_calls w1 (fst (cacheLocally L c w1 lp h))) = []"
    using cacheLocally_hit [OF f l, of lp] p by (simp_all add: new_calls_def)
  show "length (filter is_transfer (new_calls w w1)) \<le> 1" by (rule n)
  show "snd (getLocalCachePath L c w1 h) = Inr p1"
    and "lfiles (fst (getLocalCachePath L c w1 h)) p1
          = Some (case lfiles w p1 of Some c0 \<Rightarrow> c0 | None \<Rightarrow> file_content w lp)"
    using getLocalCachePath_hit [OF f l] p l c1 by simp_all
qed

lemma CacheImage_twice_bmc:
  assumes ex: "fault w (ExecuteCommand (''mkdir -p '' @ bmcCacheDir)) = None"
    and li: "fault w (ListDirectory bmcCacheDir) = None" and sl: "CHR ''/'' \<notin> set h"
    and put: "cacheToBMC w lp h = (w1, Inr p1)"
  shows "snd (cacheToBMC w1 lp h) = Inr p1"
    and "filter is_transfer (new_calls w1 (fst (cacheToBMC w1 lp h))) = []"
    and "length (filter is_transfer (new_calls w w1)) \<le> 1"
    and "snd (getBMCCachePath w1 h) = Inr p1"
    and "map_of (rfiles (fst (getBMCCachePath w1 h))) p1
          = Some (case map_of (rfiles w) p1 of Some c0 \<Rightarrow> c0 | None \<Rightarrow> file_content w lp)"
proof -
  let ?rp = "bmcCacheDir @ ''/'' @ h @ ''.img''"
  have "p1 = ?rp \<and> fault w1 = fault w \<and> bmcCacheDir \<in> set (rdirs w1)
      \<and> map_of (rfiles w1) ?rp
          = Some (case map_of (rfiles w) ?rp of Some c0 \<Rightarrow> c0 | None \<Rightarrow> file_content w lp)
      \<and> length (filter is_transfer (new_calls w w1)) \<le> 1"
  proof (cases "map_of (rfiles w) ?rp")
    case None
    from cacheToBMC_upload [OF ex li sl None put] None show ?thesis by simp
  next
    case (Some c0)
    with put show ?thesis
      unfolding cacheToBMC_eval [OF ex li sl] by (auto simp: new_calls_def)
  qed
  then obtain c1 where p: "p1 = ?rp" and f: "fault w1 = fault w"
    and d: "bmcCacheDir \<in> set (rdirs w1)" and l: "map_of (rfiles w1) ?rp = Some c1"
    and c1: "c1 = (case map_of (rfiles w) ?rp of Some c0 \<Rightarrow> c0 | None \<Rightarrow> file_content w lp)"
    and n: "length (filter is_transfer (new_calls w w1)) \<le> 1"
    by blast
  have ex1: "fault w1 (ExecuteCommand (''mkdir -p '' @ bmcCacheDir)) = None"
    and li1: "fault w1 (ListDirectory bmcCacheDir) = None"
    using ex li f by simp_all
  show "snd (cacheToBMC w1 lp h) = Inr p1"
    and "filter is_transfer (new_calls w1 (fst (cacheToBMC w1 lp h))) = []"
    unfolding cacheToBMC_eval [OF ex1 li1 sl] using l p by (simp_all add: new_calls_def)
  show "length (filter is_transfer (new_calls w w1)) \<le> 1" by (rule n)
  show "snd (getBMCCachePath w1 h) = Inr p1"
    and "map_of (rfiles (fst (getBMCCachePath w1 h))) p1
          = Some (case map_of (rfiles w) p1 of Some c0 \<Rightarrow> c0 | None \<Rightarrow> file_content w lp)"
    unfolding getBMCCachePath_eval [OF li1 d sl] using l p c1 by simp_all
qed

text \<open>
  C4. \<open>CacheImage\<close> is idempotent. For the location \<open>none\<close> it returns the input
  path and does nothing at all. When a lookup finds an entry for the hash at the
  location, \<open>CacheImage\<close> returns that same path and makes no copy and no upload
  (for the BMC, given that its \<open>mkdir -p\<close> goes through). And when a first
  \<open>CacheImage\<close> has returned a path, a second one with the same arguments returns
  the same path with no transfer, the first having made at most one. The second part
  is stated for a cache whose probing calls (stat, \<open>mkdir -p\<close>, list) do not fail for a
  reason outside the cache's own state, and for a hash without a slash, as every
  hexadecimal hash is.
\<close>

theorem put_idempotent:
  "CacheImage L c w lp h ''none'' = (w, Inr lp)
   \<and> (fault w (ExecuteCommand (''mkdir -p '' @ bmcCacheDir)) = None
      \<and> GetCachedImagePath L c w h loc = (w0, Inr p) \<and> p \<noteq> []
      \<longrightarrow> snd (CacheImage L c w lp h loc) = Inr p
        \<and> filter is_transfer (new_calls w (fst (CacheImage L c w lp h loc))) = [])
   \<and> (probes_ok L c w h \<and> CHR ''/'' \<notin> set h \<and> CacheImage L c w lp h loc = (w1, Inr p1)
      \<longrightarrow> snd (CacheImage L c w1 lp h loc) = Inr p1
        \<and> filter is_transfer (new_calls w1 (fst (CacheImage L c w1 lp h loc))) = []
        \<and> length (filter is_transfer (new_calls w w1)) \<le> 1)"
proof -
  have none: "CacheImage L c w lp h ''none'' = (w, Inr lp)"
    by (simp add: CacheImage_def loc_defs)
  have present: "snd (CacheImage L c w lp h loc) = Inr p
        \<and> filter is_transfer (new_calls w (fst (CacheImage L c w lp h loc))) = []"
    if ex: "fault w (ExecuteCommand (''mkdir -p '' @ bmcCacheDir)) = None"
      and look: "GetCachedImagePath L c w h loc = (w0, Inr p)" and p: "p \<noteq> []"
  proof -
    consider (loc) "loc = CacheLocationLocal" | (bmc) "loc = CacheLocationBMC"
      using look p by (auto simp: GetCachedImagePath_def split: if_splits)
    then show ?thesis
    proof cases
      case loc
      with look have g: "getLocalCachePath L c w h = (w0, Inr p)"
        by (simp add: GetCachedImagePath_def)
      from getLocalCachePath_present [OF g p] obtain c0 where
        "p = Join L [localDir c, h @ ''.img'']"
        "fault w (Stat (Join L [localDir c, h @ ''.img''])) = None"
        "lfiles w (Join L [localDir c, h @ ''.img'']) = Some c0" by auto
      with cacheLocally_hit [of w L c h c0 lp] loc show ?thesis
        by (simp add: CacheImage_def new_calls_def)
    next
      case bmc
      with look have g: "getBMCCachePath w h = (w0, Inr p)"
        by (simp add: GetCachedImagePath_def loc_defs)
      from cacheToBMC_hit [OF ex g p, of lp] bmc show ?thesis
        by (simp add: CacheImage_def new_calls_def loc_defs)
    qed
  qed
  have twice: "snd (CacheImage L c w1 lp h loc) = Inr p1
        \<and> filter is_transfer (new_calls w1 (fst (CacheImage L c w1 lp h loc))) = []
        \<and> length (filter is_transfer (new_calls w w1)) \<le> 1"
    if pr: "probes_ok L c w h" and sl: "CHR ''/'' \<notin> set h"
      and put: "CacheImage L c w lp h loc = (w1, Inr p1)"
  proof -
    consider (loc) "loc = CacheLocationLocal" | (bmc) "loc = CacheLocationBMC"
      | (none) "loc = CacheLocationNone"
      using put by (auto simp: CacheImage_def split: if_splits)
    then show ?thesis
    proof cases
      case loc
      with put have g: "cacheLocally L c w lp h = (w1, Inr p1)" by (simp add: CacheImage_def)
      from pr have st: "fault w (Stat (Join L [localDir c, h @ ''.img''])) = None"
        by (simp add: probes_ok_def)
      from CacheImage_twice_local(1-3) [OF st g] loc show ?thesis
        by (simp add: CacheImage_def)
    next
      case bmc
      with put have g: "cacheToBMC w lp h = (w1, Inr p1)" by (simp add: CacheImage_def loc_defs)
      from pr have ex: "fault w (ExecuteCommand (''mkdir -p '' @ bmcCacheDir)) = None"
        and li: "fault w (ListDirectory bmcCacheDir) = None"
        by (simp_all add: probes_ok_def)
      from CacheImage_twice_bmc(1-3) [OF ex li sl g] bmc show ?thesis
        by (simp add: CacheImage_def loc_defs)
    next
      case none
      with put show ?thesis by (auto simp: CacheImage_def loc_defs)
    qed
  qed
  from none present twice show ?thesis by blast
qed

text \<open>
  C7, as amended. After a successful \<open>CacheImage\<close> for the local or the BMC backend,
  a lookup of the same hash at the same location returns the path \<open>CacheImage\<close>
  returned, and the file at that path holds the bytes the backend already held under
  that path before the call or, when it held none, the bytes of the local file.
  Neither function hashes anything: the stored bytes hash to the key when the caller's
  hash is the hash of the local file and an entry that was already there was stored
  under its true hash. The probing calls of the cache are taken not to fail and the
  hash to hold no slash.
\<close>

theorem lookup_after_put:
  assumes pr: "probes_ok L c w h" and sl: "CHR ''/'' \<notin> set h"
    and loc: "loc = ''local'' \<or> loc = ''bmc''"
    and put: "CacheImage L c w lp h loc = (w1, Inr p)" and "p \<noteq> []"
  shows "snd (GetCachedImagePath L c w1 h loc) = Inr p
       \<and> stored_content (fst (GetCachedImagePath L c w1 h loc)) loc p
           = Some (case stored_content w loc p of Some c0 \<Rightarrow> c0 | None \<Rightarrow> file_content w lp)
       \<and> (sha256_hex L (file_content w lp) = h
            \<and> (\<forall>c0. stored_content w loc p = Some c0 \<longrightarrow> sha256_hex L c0 = h)
          \<longrightarrow> (\<exists>content. stored_content (fst (GetCachedImagePath L c w1 h loc)) loc p
                   = Some content \<and> sha256_hex L content = h))"
proof -
  have 1: "snd (GetCachedImagePath L c w1 h loc) = Inr p
       \<and> stored_content (fst (GetCachedImagePath L c w1 h loc)) loc p
           = Some (case stored_content w loc p of Some c0 \<Rightarrow> c0 | None \<Rightarrow> file_content w lp)"
    using loc
  proof
    assume l: "loc = ''local''"
    with put have g: "cacheLocally L c w lp h = (w1, Inr p)" by (simp add: CacheImage_def loc_defs)
    from pr have st: "fault w (Stat (Join L [localDir c, h @ ''.img''])) = None"
      by (simp add: probes_ok_def)
    from CacheImage_twice_local(4,5) [OF st g] l show ?thesis
      by (simp add: GetCachedImagePath_def stored_content_def loc_defs)
  next
    assume l: "loc = ''bmc''"
    with put have g: "cacheToBMC w lp h = (w1, Inr p)" by (simp add: CacheImage_def loc_defs)
    from pr have ex: "fault w (ExecuteCommand (''mkdir -p '' @ bmcCacheDir)) = None"
      and li: "fault w (ListDirectory bmcCacheDir) = None"
      by (simp_all add: probes_ok_def)
    from CacheImage_twice_bmc(4,5) [OF ex li sl g] l show ?thesis
      by (simp add: GetCachedImagePath_def stored_content_def loc_defs)
  qed
  then show ?thesis by (auto split: option.splits)
qed

theorem put_idempotent_witness:
  "fault cached_local (ExecuteCommand (''mkdir -p '' @ bmcCacheDir)) = None
   \<and> snd (GetCachedImagePath L0 cache0 cached_local sha_img ''local'')
       = Inr ''/home/u/.cache/terraform-provider-turingpi/0123456789abcdefIMG.img''
   \<and> snd (CacheImage L0 cache0 cached_local ''/img'' sha_img ''local'')
       = Inr ''/home/u/.cache/terraform-provider-turingpi/0123456789abcdefIMG.img''
   \<and> filter is_transfer
        (new_calls cached_local (fst (CacheImage L0 cache0 cached_local ''/img'' sha_img ''local'')))
       = []
   \<and> probes_ok L0 cache0 (local_img plain) sha_img
   \<and> CHR ''/'' \<notin> set sha_img
   \<and> snd (CacheImage L0 cache0 (local_img plain) ''/img'' sha_img ''bmc'')
       = Inr ''/tmp/tpi-cache/0123456789abcdefIMG.img''
   \<and> snd (CacheImage L0 cache0
            (fst (CacheImage L0 cache0 (local_img plain) ''/img'' sha_img ''bmc''))
            ''/img'' sha_img ''bmc'')
       = Inr ''/tmp/tpi-cache/0123456789abcdefIMG.img''
   \<and> filter is_transfer
        (new_calls (fst (CacheImage L0 cache0 (local_img plain) ''/img'' sha_img ''bmc''))
           (fst (CacheImage L0 cache0
                  (fst (CacheImage L0 cache0 (local_img plain) ''/img'' sha_img ''bmc''))
                  ''/img'' sha_img ''bmc'')))
       = []
   \<and> filter is_transfer
        (new_calls (local_img plain)
           (fst (CacheImage L0 cache0 (local_img plain) ''/img'' sha_img ''bmc'')))
       = [UploadFile ''/img'' ''/tmp/tpi-cache/0123456789abcdefIMG.img'']"
  using put_idempotent [of L0 cache0 cached_local "''/img''" sha_img "''local''"
      "fst (GetCachedImagePath L0 cache0 cached_local sha_img ''local'')"
      "''/home/u/.cache/terraform-provider-turingpi/0123456789abcdefIMG.img''"]
    put_idempotent [of L0 cache0 "local_img plain" "''/img''" sha_img "''bmc''" _ _
      "fst (CacheImage L0 cache0 (local_img plain) ''/img'' sha_img ''bmc'')"
      "''/tmp/tpi-cache/0123456789abcdefIMG.img''"]
  by (simp add: cache_defs env_defs fixture_defs cached_local_def local_img_def plain_def
      probes_ok_def loc_defs new_calls_def Let_def)

theorem lookup_after_put_witness:
  "probes_ok L0 cache0 (local_img plain) sha_img \<and> CHR ''/'' \<notin> set sha_img
   \<and> snd (CacheImage L0 cache0 (local_img plain) ''/img'' sha_img ''bmc'')
       = Inr ''/tmp/tpi-cache/0123456789abcdefIMG.img''
   \<and> snd (GetCachedImagePath L0 cache0
            (fst (CacheImage L0 cache0 (local_img plain) ''/img'' sha_img ''bmc''))
            sha_img ''bmc'')
       = Inr ''/tmp/tpi-cache/0123456789abcdefIMG.img''
   \<and> stored_content
        (fst (GetCachedImagePath L0 cache0
               (fst (CacheImage L0 cache0 (local_img plain) ''/img'' sha_img ''bmc''))
               sha_img ''bmc''))
        ''bmc'' ''/tmp/tpi-cache/0123456789abcdefIMG.img'' = Some ''IMG''
   \<and> sha256_hex L0 ''IMG'' = sha_img"
  using lookup_after_put [of L0 cache0 "local_img plain" sha_img "''bmc''" "''/img''"
      "fst (CacheImage L0 cache0 (local_img plain) ''/img'' sha_img ''bmc'')"
      "''/tmp/tpi-cache/0123456789abcdefIMG.img''"]
  by (simp add: cache_defs env_defs fixture_defs local_img_def plain_def
      probes_ok_def stored_content_def loc_defs new_calls_def Let_def)

text \<open>
  C7 as stated fails: the local image \<open>/img\<close> is stored under a well-formed hash that
  is not the hash of its bytes (a hash the plan gives for a local image is never
  checked). The store succeeds, the lookup returns the stored path, and the bytes at
  that path do not hash to the key.
\<close>

theorem put_under_wrong_hash:
  "snd (CacheImage L0 cache0 (local_img plain) ''/img'' zeros64 ''local'')
     = Inr (''/home/u/.cache/terraform-provider-turingpi/'' @ zeros64 @ ''.img'')
   \<and> snd (GetCachedImagePath L0 cache0
            (fst (CacheImage L0 cache0 (local_img plain) ''/img'' zeros64 ''local''))
            zeros64 ''local'')
     = Inr (''/home/u/.cache/terraform-provider-turingpi/'' @ zeros64 @ ''.img'')
   \<and> lfiles (fst (CacheImage L0 cache0 (local_img plain) ''/img'' zeros64 ''local''))
        (''/home/u/.cache/terraform-provider-turingpi/'' @ zeros64 @ ''.img'') = Some ''IMG''
   \<and> sha256_hex L0 ''IMG'' \<noteq> zeros64"
  by (simp add: cache_defs env_defs fixture_defs local_img_def plain_def zeros64_def
      loc_defs Let_def)

end
